theory Spec2Isabelle
  imports Main "HOL-Library.Sublist" "HOL-Library.Word"
begin

section \<open>JavaScript values\<close>

text \<open>
  A parsed JSON body holds JavaScript values. \<open>JUndefined\<close> is what reading an absent
  key gives. Strings are byte strings (the UTF-8 form of the JavaScript string), so the
  ASCII characters the code looks for stand for themselves. Numbers are the safe integers,
  from -2^53 to 2^53 - 1, kept as a signed word of 54 bits: JavaScript represents each
  exactly and prints it in plain decimal digits. An object holds each key once.
\<close>

datatype jsval =
    JUndefined
  | JNull
  | JBool bool
  | JNum "54 word"
  | JStr string
  | JArr "jsval list"
  | JObj "(string \<times> jsval) list"

text \<open>Truthiness, as \<open>!v\<close> and \<open>v || d\<close> read it.\<close>

fun truthy :: "jsval \<Rightarrow> bool" where
  "truthy JUndefined = False"
| "truthy JNull = False"
| "truthy (JBool b) = b"
| "truthy (JNum n) = (n \<noteq> 0)"
| "truthy (JStr s) = (s \<noteq> [])"
| "truthy (JArr xs) = True"
| "truthy (JObj kvs) = True"

definition js_or :: "jsval \<Rightarrow> jsval \<Rightarrow> jsval" where
  "js_or v d = (if truthy v then v else d)"

definition nl :: string where
  "nl = [CHR 0x0A]"

definition digit :: "nat \<Rightarrow> char" where
  "digit d = ''0123456789'' ! (d mod 10)"

fun show_nat :: "nat \<Rightarrow> string" where
  "show_nat n = (if n < 10 then [digit n] else show_nat (n div 10) @ [digit (n mod 10)])"

declare show_nat.simps [simp del]

definition show_int :: "int \<Rightarrow> string" where
  "show_int i = (if i < 0 then CHR ''-'' # show_nat (nat (- i)) else show_nat (nat i))"

fun join_with :: "string \<Rightarrow> string list \<Rightarrow> string" where
  "join_with sep [] = []"
| "join_with sep [s] = s"
| "join_with sep (s # t # ts) = s @ sep @ join_with sep (t # ts)"

datatype js_error = TypeError | PayloadTooLargeError

text \<open>The results of a list of steps that may throw: the first error, or all the values.\<close>

fun all_right :: "('e + 'a) list \<Rightarrow> 'e + 'a list" where
  "all_right [] = Inr []"
| "all_right (Inl e # xs) = Inl e"
| "all_right (Inr x # xs) = (case all_right xs of Inl e \<Rightarrow> Inl e | Inr ys \<Rightarrow> Inr (x # ys))"

text \<open>
  The string a template literal \<open>`${v}`\<close> puts in for a value. An array joins the strings of
  its elements with commas (\<open>null\<close> and \<open>undefined\<close> elements as the empty string). An object
  parsed from JSON prints as \<open>[object Object]\<close> through \<open>Object.prototype.toString\<close>,
  unless it has a key \<open>toString\<close> of its own: that value is not callable, \<open>valueOf\<close> gives
  no primitive either, and the conversion throws a TypeError.
\<close>

fun js_to_string :: "jsval \<Rightarrow> js_error + string" where
  "js_to_string JUndefined = Inr ''undefined''"
| "js_to_string JNull = Inr ''null''"
| "js_to_string (JBool b) = Inr (if b then ''true'' else ''false'')"
| "js_to_string (JNum n) = Inr (show_int (sint n))"
| "js_to_string (JStr s) = Inr s"
| "js_to_string (JArr xs) =
     (case all_right (map (\<lambda>x. if x = JUndefined \<or> x = JNull then Inr [] else js_to_string x) xs) of
        Inl err \<Rightarrow> Inl err
      | Inr strs \<Rightarrow> Inr (join_with '','' strs))"
| "js_to_string (JObj kvs) =
     (if ''toString'' \<in> fst ` set kvs then Inl TypeError else Inr ''[object Object]'')"

text \<open>
  A template literal: fixed text and substitutions, converted from left to right.
\<close>

datatype piece = Text string | Subst jsval

fun template :: "piece list \<Rightarrow> js_error + string" where
  "template [] = Inr []"
| "template (Text s # ps) =
     (case template ps of Inl err \<Rightarrow> Inl err | Inr t \<Rightarrow> Inr (s @ t))"
| "template (Subst v # ps) =
     (case js_to_string v of
        Inl err \<Rightarrow> Inl err
      | Inr s \<Rightarrow> (case template ps of Inl err \<Rightarrow> Inl err | Inr t \<Rightarrow> Inr (s @ t)))"

text \<open>
  \<open>v.includes(x)\<close>: a string searches for the substring (here always the one character
  \<open>@\<close>), an array for an equal element; no other value parsed from JSON has a callable
  \<open>includes\<close>, and the call throws a TypeError.
\<close>

fun js_includes :: "jsval \<Rightarrow> char \<Rightarrow> js_error + bool" where
  "js_includes (JStr s) c = Inr (c \<in> set s)"
| "js_includes (JArr xs) c = Inr (JStr [c] \<in> set xs)"
| "js_includes v c = Inl TypeError"

section \<open>Environment, mail and replies\<close>

text \<open>\<open>process.env\<close>: a variable that is not set reads as \<open>undefined\<close>.\<close>

type_synonym env = "string \<Rightarrow> string option"

definition env_val :: "env \<Rightarrow> string \<Rightarrow> jsval" where
  "env_val e k = (case e k of None \<Rightarrow> JUndefined | Some s \<Rightarrow> JStr s)"

text \<open>\<open>`${process.env.K}`\<close>: the variable's string, or the text \<open>undefined\<close>.\<close>

definition env_text :: "env \<Rightarrow> string \<Rightarrow> string" where
  "env_text e k = (case e k of None \<Rightarrow> ''undefined'' | Some s \<Rightarrow> s)"

text \<open>
  The message object handed to the mail collaborator (\<open>resend.emails.send\<close>,
  \<open>transporter.sendMail\<close>). \<open>mail_replyTo = None\<close> is a message without that key.
\<close>

record mail =
  mail_from :: string
  mail_to :: jsval
  mail_replyTo :: "string option"
  mail_subject :: string
  mail_html :: string

text \<open>
  The collaborator's answer to a message: \<open>Inl\<close> the error text when the awaited promise
  rejects, \<open>Inr\<close> the value it resolves to. The Resend client resolves to an object with the
  delivery identifier under \<open>id\<close>; it also resolves, and does not reject, when the provider
  refuses the message, to an object that describes the error. What nodemailer resolves to
  is not read by the program.
\<close>

type_synonym dispatcher = "mail \<Rightarrow> string + jsval"

text \<open>
  \<open>data.id\<close>: reading a property of \<open>undefined\<close> or \<open>null\<close> throws a TypeError; an object
  gives the value under the key, \<open>undefined\<close> when it has none; no other value has an \<open>id\<close>.
\<close>

fun get_id :: "jsval \<Rightarrow> js_error + jsval" where
  "get_id JUndefined = Inl TypeError"
| "get_id JNull = Inl TypeError"
| "get_id (JObj kvs) = Inr (case map_of kvs ''id'' of None \<Rightarrow> JUndefined | Some v \<Rightarrow> v)"
| "get_id v = Inr JUndefined"

text \<open>\<open>res.json({...})\<close>: a key whose value is \<open>undefined\<close> is left out of the body.\<close>

definition res_json :: "(string \<times> jsval) list \<Rightarrow> jsval" where
  "res_json kvs = JObj (filter (\<lambda>kv. snd kv \<noteq> JUndefined) kvs)"

text \<open>
  What the client receives: a JSON reply written by the program, or the reply of
  Express's default error handler to an error no middleware of the program handles,
  whose status is the error's own, 500 when it has none.
\<close>

datatype reply = Json nat jsval | ExpressError js_error

fun reply_status :: "reply \<Rightarrow> nat" where
  "reply_status (Json st b) = st"
| "reply_status (ExpressError PayloadTooLargeError) = 413"
| "reply_status (ExpressError TypeError) = 500"

section \<open>server.js: the Resend variant\<close>

record body =
  fullName :: jsval
  email :: jsval
  phone :: jsval
  organization :: jsval
  serviceType :: jsval
  preferredDate :: jsval
  preferredTime :: jsval
  notes_field :: jsval

datatype middleware_result = Next | Respond reply | Throw js_error

definition validateBooking :: "body \<Rightarrow> middleware_result" where
  "validateBooking b =
     (if \<not> truthy (fullName b) \<or> \<not> truthy (email b) \<or> \<not> truthy (serviceType b)
         \<or> \<not> truthy (preferredDate b) \<or> \<not> truthy (preferredTime b)
      then Respond (Json 400 (res_json [(''error'', JStr ''Missing required fields'')]))
      else case js_includes (email b) CHR ''@'' of
             Inl err \<Rightarrow> Throw err
           | Inr found \<Rightarrow>
               if \<not> found
               then Respond (Json 400 (res_json [(''error'', JStr ''Invalid email format'')]))
               else Next)"

definition admin_html :: "body \<Rightarrow> js_error + string" where
  \<open>admin_html b = template [Text nl,
     Text ''        <div style="font-family: Arial, sans-serif; max-width: 600px; margin: 0 auto;">'', Text nl,
     Text ''          <h2 style="color: #0d9488; border-bottom: 2px solid #0d9488; padding-bottom: 10px;">'', Text nl,
     Text ''            New Consultation Booking'', Text nl,
     Text ''          </h2>'', Text nl,
     Text ''          '', Text nl,
     Text ''          <div style="background: #f8fafc; padding: 20px; border-radius: 8px; margin: 20px 0;">'', Text nl,
     Text ''            <p><strong>Client:</strong> '', Subst (fullName b), Text ''</p>'', Text nl,
     Text ''            <p><strong>Email:</strong> '', Subst (email b), Text ''</p>'', Text nl,
     Text ''            <p><strong>Phone:</strong> '', Subst (js_or (phone b) (JStr ''Not provided'')), Text ''</p>'', Text nl,
     Text ''            <p><strong>Organization:</strong> '', Subst (js_or (organization b) (JStr ''Not provided'')), Text ''</p>'', Text nl,
     Text ''            <p><strong>Service:</strong> '', Subst (serviceType b), Text ''</p>'', Text nl,
     Text ''            <p><strong>Schedule:</strong> '', Subst (preferredDate b), Text '' at '', Subst (preferredTime b), Text ''</p>'', Text nl,
     Text ''            <p><strong>Notes:</strong> '', Subst (js_or (notes_field b) (JStr ''None'')), Text ''</p>'', Text nl,
     Text ''          </div>'', Text nl,
     Text ''          '', Text nl,
     Text ''          <p style="color: #64748b; font-size: 14px;">'', Text nl,
     Text ''            This booking was submitted via the Altura Health website contact form.'', Text nl,
     Text ''          </p>'', Text nl,
     Text ''        </div>'', Text nl,
     Text ''      '']\<close>

text \<open>
  The message object of the one send. Its template literals are evaluated inside \<open>try\<close>,
  before \<open>send\<close> is called: \<open>from\<close> (an environment variable never throws), \<open>subject\<close>,
  \<open>html\<close>.
\<close>

definition admin_mail :: "env \<Rightarrow> body \<Rightarrow> js_error + mail" where
  "admin_mail e b =
     (case template [Text ''New Booking Request: '', Subst (fullName b)] of
        Inl err \<Rightarrow> Inl err
      | Inr subject \<Rightarrow>
          (case admin_html b of
             Inl err \<Rightarrow> Inl err
           | Inr html \<Rightarrow>
               Inr \<lparr> mail_from = ''Altura Health <'' @ env_text e ''FROM_EMAIL'' @ ''>'',
                     mail_to = JArr [env_val e ''ADMIN_EMAIL''],
                     mail_replyTo = None,
                     mail_subject = subject,
                     mail_html = html \<rparr>))"

text \<open>
  The route's last handler: everything is inside one \<open>try\<close>. An error thrown while the
  message is built, a rejected send, and an error thrown by \<open>data.id\<close> all reach the \<open>catch\<close>;
  a send that resolves is answered 200 whatever the value says. The result is the reply
  and the messages handed to the collaborator, in order.
\<close>

definition booking_handler :: "env \<Rightarrow> dispatcher \<Rightarrow> body \<Rightarrow> reply \<times> mail list" where
  "booking_handler e send b =
     (let failed = Json 500 (res_json [(''error'',
                     JStr ''Failed to send booking. Please try again or contact us directly.'')])
      in case admin_mail e b of
           Inl err \<Rightarrow> (failed, [])
         | Inr m \<Rightarrow>
             (case send m of
                Inl err \<Rightarrow> (failed, [m])
              | Inr data \<Rightarrow>
                  (case get_id data of
                     Inl err \<Rightarrow> (failed, [m])
                   | Inr ident \<Rightarrow>
                       (Json 200 (res_json [(''message'', JStr ''Booking submitted successfully''),
                                            (''id'', ident),
                                            (''status'', JStr ''confirmed'')]), [m]))))"

section \<open>The gatekeeper: origin headers, body size, request rate\<close>

text \<open>
  A booking request as the middleware chain sees it: the \<open>Origin\<close> header, the client
  address the rate limiter keys on, the arrival time in milliseconds, the length of the
  JSON body in bytes and the parsed body. Method and path are fixed: \<open>POST /api/booking\<close>.
\<close>

record 'b request =
  req_origin :: "string option"
  req_ip :: string
  req_time :: nat
  req_bytes :: nat
  req_body :: 'b

text \<open>
  The \<open>cors\<close> package is a dependency. Its middleware answers a preflight (\<open>OPTIONS\<close>)
  request itself; on every other request it only adds the \<open>Access-Control-Allow-Origin\<close>
  header and calls \<open>next\<close>: with no options the header is \<open>*\<close>, with a list of origins
  it is the request's origin when the list holds it and is left out otherwise.
\<close>

datatype origin_option = AnyOrigin | OriginList "string list"

record cors_options =
  cors_origin :: origin_option
  cors_methods :: "string list"
  cors_allowedHeaders :: "string list option"

definition cors_defaults :: cors_options where
  "cors_defaults =
     \<lparr> cors_origin = AnyOrigin,
       cors_methods = [''GET'', ''HEAD'', ''PUT'', ''PATCH'', ''POST'', ''DELETE''],
       cors_allowedHeaders = None \<rparr>"

definition secure_cors :: cors_options where
  "secure_cors =
     \<lparr> cors_origin = OriginList [''http://localhost:5178'', ''http://192.168.100.12:5178''],
       cors_methods = [''POST''],
       cors_allowedHeaders = Some [''Content-Type''] \<rparr>"

definition allow_origin :: "cors_options \<Rightarrow> string option \<Rightarrow> string option" where
  "allow_origin opts origin =
     (case cors_origin opts of
        AnyOrigin \<Rightarrow> Some ''*''
      | OriginList allowed \<Rightarrow>
          (case origin of
             None \<Rightarrow> None
           | Some x \<Rightarrow> if x \<in> set allowed then Some x else None))"

text \<open>
  The preflight answer: status 204 with the allowed origin and the
  \<open>Access-Control-Allow-Methods\<close> header listing the configured methods.
\<close>

record preflight_reply =
  pf_status :: nat
  pf_allow_origin :: "string option"
  pf_allow_methods :: string

definition preflight :: "cors_options \<Rightarrow> string option \<Rightarrow> preflight_reply" where
  "preflight opts origin =
     \<lparr> pf_status = 204,
       pf_allow_origin = allow_origin opts origin,
       pf_allow_methods = join_with '','' (cors_methods opts) \<rparr>"

text \<open>
  \<open>express.json({limit})\<close>: a body longer than the limit is refused with a
  PayloadTooLargeError (status 413) before it is parsed. \<open>'10kb'\<close> is 10 * 1024 bytes;
  without the option the parser's limit is \<open>'100kb'\<close>.
\<close>

definition kb :: "nat \<Rightarrow> nat" where
  "kb n = n * 1024"

definition default_json_limit :: nat where
  "default_json_limit = kb 100"

definition express_json :: "nat \<Rightarrow> nat \<Rightarrow> middleware_result" where
  "express_json limit bytes = (if limit < bytes then Throw PayloadTooLargeError else Next)"

text \<open>
  The state of the rate guard: one window per client identity, a counter of the requests
  seen and the time in milliseconds at which the window ends.
\<close>

record rate_window =
  hits :: nat
  reset_at :: nat

type_synonym rate_store = "string \<Rightarrow> rate_window option"

text \<open>
  Modelled from the spec: the window of a client identity at a request, missing from the
  repository because the counting is done inside the express-rate-limit package. If the
  window of that identity is unset or expired, it is initialised: no request counted, ending
  one window length after the request.
\<close>

definition current_window :: "nat \<Rightarrow> rate_store \<Rightarrow> string \<Rightarrow> nat \<Rightarrow> rate_window" where
  "current_window windowMs st key now =
     (case st key of
        None \<Rightarrow> \<lparr> hits = 0, reset_at = now + windowMs \<rparr>
      | Some w \<Rightarrow> if now < reset_at w then w else \<lparr> hits = 0, reset_at = now + windowMs \<rparr>)"

text \<open>
  Modelled from the spec: the middleware that \<open>rateLimit({windowMs, max, message})\<close> builds,
  missing from the repository because it is the express-rate-limit package's. On each
  request the counter of the client's window is incremented; if the counter exceeds the
  ceiling, the answer is 429 with the configured message and the request is not forwarded;
  otherwise it is forwarded.
\<close>

definition rateLimit ::
  "nat \<Rightarrow> nat \<Rightarrow> jsval \<Rightarrow> rate_store \<Rightarrow> string \<Rightarrow> nat \<Rightarrow> rate_store \<times> middleware_result" where
  "rateLimit windowMs max_hits message st key now =
     (let w = current_window windowMs st key now;
          w' = w \<lparr> hits := hits w + 1 \<rparr>;
          st' = st (key \<mapsto> w')
      in if max_hits < hits w' then (st', Respond (Json 429 message)) else (st', Next))"

text \<open>
  The Express pipeline both files build: \<open>app.use(cors(opts))\<close>,
  \<open>app.use(express.json(...))\<close>, then the route \<open>app.post('/api/booking', limiter, ...)\<close>
  whose remaining handlers are \<open>route\<close>. An error thrown by a middleware goes to Express's
  default error handler. The outcome holds the reply, the \<open>Access-Control-Allow-Origin\<close>
  header, the messages handed to the mail collaborator and the rate store afterwards.
\<close>

record outcome =
  out_reply :: reply
  out_allow_origin :: "string option"
  out_sent :: "mail list"
  out_store :: rate_store

definition express_app ::
  "cors_options \<Rightarrow> nat \<Rightarrow> (rate_store \<Rightarrow> string \<Rightarrow> nat \<Rightarrow> rate_store \<times> middleware_result)
     \<Rightarrow> ('b \<Rightarrow> reply \<times> mail list) \<Rightarrow> rate_store \<Rightarrow> 'b request \<Rightarrow> outcome" where
  "express_app opts limit lim route st r =
     (let acao = allow_origin opts (req_origin r) in
      case express_json limit (req_bytes r) of
        Throw err \<Rightarrow>
          \<lparr> out_reply = ExpressError err, out_allow_origin = acao, out_sent = [], out_store = st \<rparr>
      | Respond rep \<Rightarrow>
          \<lparr> out_reply = rep, out_allow_origin = acao, out_sent = [], out_store = st \<rparr>
      | Next \<Rightarrow>
          (case lim st (req_ip r) (req_time r) of
             (st', Throw err) \<Rightarrow>
               \<lparr> out_reply = ExpressError err, out_allow_origin = acao, out_sent = [],
                 out_store = st' \<rparr>
           | (st', Respond rep) \<Rightarrow>
               \<lparr> out_reply = rep, out_allow_origin = acao, out_sent = [], out_store = st' \<rparr>
           | (st', Next) \<Rightarrow>
               (let (rep, ms) = route (req_body r)
                in \<lparr> out_reply = rep, out_allow_origin = acao, out_sent = ms,
                     out_store = st' \<rparr>)))"

text \<open>Requests are handled one after the other; the rate store is the only state kept.\<close>

fun serve :: "(rate_store \<Rightarrow> 'b request \<Rightarrow> outcome) \<Rightarrow> rate_store \<Rightarrow> 'b request list \<Rightarrow> outcome list" where
  "serve app st [] = []"
| "serve app st (r # rs) = (let out = app st r in out # serve app (out_store out) rs)"

text \<open>The process: ended with an exit code, or listening on \<open>PORT\<close>.\<close>

datatype process = Exited nat | Listening jsval

section \<open>server.js: the application\<close>

definition limiter :: "rate_store \<Rightarrow> string \<Rightarrow> nat \<Rightarrow> rate_store \<times> middleware_result" where
  "limiter =
     rateLimit (15 * 60 * 1000) 5
       (JObj [(''error'', JStr ''Too many booking requests. Please try again later.''),
              (''retryAfter'', JStr ''15 minutes'')])"

text \<open>\<open>validateBooking\<close> and the handler, the route's handlers after the limiter.\<close>

definition booking_route :: "env \<Rightarrow> dispatcher \<Rightarrow> body \<Rightarrow> reply \<times> mail list" where
  "booking_route e send b =
     (case validateBooking b of
        Respond rep \<Rightarrow> (rep, [])
      | Throw err \<Rightarrow> (ExpressError err, [])
      | Next \<Rightarrow> booking_handler e send b)"

definition server_app :: "env \<Rightarrow> dispatcher \<Rightarrow> rate_store \<Rightarrow> body request \<Rightarrow> outcome" where
  "server_app e send = express_app cors_defaults default_json_limit limiter (booking_route e send)"

text \<open>
  Start-up: the check of the three environment variables comes before \<open>app.listen\<close>, and
  \<open>process.exit(1)\<close> ends the process there. The port is \<open>process.env.PORT || 5000\<close>.
\<close>

definition startup :: "env \<Rightarrow> process" where
  "startup e =
     (if \<not> truthy (env_val e ''RESEND_API_KEY'') \<or> \<not> truthy (env_val e ''FROM_EMAIL'')
         \<or> \<not> truthy (env_val e ''ADMIN_EMAIL'')
      then Exited 1
      else Listening (js_or (env_val e ''PORT'') (JNum 5000)))"

text \<open>The process from its start: what it became and the outcomes of the requests it served.\<close>

definition server :: "env \<Rightarrow> dispatcher \<Rightarrow> body request list \<Rightarrow> process \<times> outcome list" where
  "server e send rs =
     (case startup e of
        Exited code \<Rightarrow> (Exited code, [])
      | Listening port \<Rightarrow> (Listening port, serve (server_app e send) Map.empty rs))"

section \<open>server-secure.js: the nodemailer variant\<close>

subsection \<open>The sanitizers of validator.js\<close>

text \<open>
  express-validator and validator.js are dependencies. \<open>trim()\<close> removes the white space
  of JavaScript's \<open>\s\<close> from both ends; \<open>white_space\<close> lists these characters in UTF-8:
  tab to carriage return, space, U+00A0, U+1680, U+2000 to U+200A, U+2028, U+2029, U+202F,
  U+205F, U+3000, U+FEFF.
\<close>

definition white_space :: "string list" where
  "white_space =
     [[CHR 0x09], [CHR 0x0A], [CHR 0x0B], [CHR 0x0C], [CHR 0x0D], [CHR 0x20],
      [CHR 0xC2, CHR 0xA0],
      [CHR 0xE1, CHR 0x9A, CHR 0x80],
      [CHR 0xE2, CHR 0x80, CHR 0x80], [CHR 0xE2, CHR 0x80, CHR 0x81],
      [CHR 0xE2, CHR 0x80, CHR 0x82], [CHR 0xE2, CHR 0x80, CHR 0x83],
      [CHR 0xE2, CHR 0x80, CHR 0x84], [CHR 0xE2, CHR 0x80, CHR 0x85],
      [CHR 0xE2, CHR 0x80, CHR 0x86], [CHR 0xE2, CHR 0x80, CHR 0x87],
      [CHR 0xE2, CHR 0x80, CHR 0x88], [CHR 0xE2, CHR 0x80, CHR 0x89],
      [CHR 0xE2, CHR 0x80, CHR 0x8A],
      [CHR 0xE2, CHR 0x80, CHR 0xA8], [CHR 0xE2, CHR 0x80, CHR 0xA9],
      [CHR 0xE2, CHR 0x80, CHR 0xAF],
      [CHR 0xE2, CHR 0x81, CHR 0x9F],
      [CHR 0xE3, CHR 0x80, CHR 0x80],
      [CHR 0xEF, CHR 0xBB, CHR 0xBF]]"

function strip_leading :: "string list \<Rightarrow> string \<Rightarrow> string" where
  "strip_leading ws s =
     (case find (\<lambda>w. w \<noteq> [] \<and> prefix w s) ws of
        None \<Rightarrow> s
      | Some w \<Rightarrow> strip_leading ws (drop (length w) s))"
  by pat_completeness auto
termination
proof (relation "measure (\<lambda>(ws, s). length s)")
  show "wf (measure (\<lambda>(ws, s). length s))" by simp
next
  fix ws :: "string list" and s w :: string
  assume "find (\<lambda>w. w \<noteq> [] \<and> prefix w s) ws = Some w"
  then have "w \<noteq> []" and "prefix w s"
    by (auto simp: find_Some_iff)
  then have "s \<noteq> []" by auto
  with \<open>w \<noteq> []\<close> show "((ws, drop (length w) s), (ws, s)) \<in> measure (\<lambda>(ws, s). length s)"
    by (cases w) auto
qed

declare strip_leading.simps [simp del]

definition ltrim :: "string \<Rightarrow> string" where
  "ltrim s = strip_leading white_space s"

definition rtrim :: "string \<Rightarrow> string" where
  "rtrim s = rev (strip_leading (map rev white_space) (rev s))"

definition trim :: "string \<Rightarrow> string" where
  "trim s = rtrim (ltrim s)"

text \<open>
  \<open>escape()\<close> replaces \<open>&\<close>, \<open>"\<close>, \<open>'\<close>, \<open><\<close>, \<open>>\<close>, \<open>/\<close>, the backslash and the backquote
  with HTML character references; \<open>&\<close> is replaced first, so each character of the input
  is replaced once.
\<close>

definition escape_char :: "char \<Rightarrow> string" where
  "escape_char c =
     (if c = CHR ''&'' then ''&amp;''
      else if c = CHR 0x22 then ''&quot;''
      else if c = CHR 0x27 then ''&#x27;''
      else if c = CHR ''<'' then ''&lt;''
      else if c = CHR ''>'' then ''&gt;''
      else if c = CHR ''/'' then ''&#x2F;''
      else if c = CHR 0x5C then ''&#x5C;''
      else if c = CHR 0x60 then ''&#96;''
      else [c])"

definition escape :: "string \<Rightarrow> string" where
  "escape s = concat (map escape_char s)"

text \<open>
  \<open>isEmail\<close> and \<open>normalizeEmail\<close> of validator.js are taken as they come: the mailbox
  check, and the normal form of an address that passed it.
\<close>

record email_rules =
  isEmail :: "string \<Rightarrow> bool"
  normalizeEmail :: "string \<Rightarrow> string"

subsection \<open>The validation chain\<close>

text \<open>
  The body as the chain reads it: each field is absent or a string. The chain turns an
  absent field into the empty string before any sanitizer or validator sees it.
\<close>

record form =
  f_fullName :: "string option"
  f_email :: "string option"
  f_phone :: "string option"
  f_organization :: "string option"
  f_serviceType :: "string option"
  f_preferredDate :: "string option"
  f_preferredTime :: "string option"
  f_notes :: "string option"

definition field_text :: "string option \<Rightarrow> string" where
  "field_text v = (case v of None \<Rightarrow> [] | Some s \<Rightarrow> s)"

text \<open>
  An entry of \<open>errors.array()\<close>: the field, the message and the value the failed validator
  saw. \<open>notEmpty\<close> sees the trimmed string, \<open>isEmail\<close> the value as submitted.
\<close>

record validation_error =
  err_path :: string
  err_msg :: string
  err_value :: jsval

definition notEmpty :: "string \<Rightarrow> string \<Rightarrow> string \<Rightarrow> validation_error list" where
  "notEmpty path msg v =
     (if v = [] then [\<lparr> err_path = path, err_msg = msg, err_value = JStr v \<rparr>] else [])"

definition validationResult :: "email_rules \<Rightarrow> form \<Rightarrow> validation_error list" where
  "validationResult lib p =
     notEmpty ''fullName'' ''Name is required'' (trim (field_text (f_fullName p)))
     @ (if isEmail lib (field_text (f_email p)) then []
        else [\<lparr> err_path = ''email'', err_msg = ''Valid email is required'',
                err_value = (case f_email p of None \<Rightarrow> JUndefined | Some s \<Rightarrow> JStr s) \<rparr>])
     @ notEmpty ''serviceType'' ''Service type is required'' (trim (field_text (f_serviceType p)))
     @ notEmpty ''preferredDate'' ''Invalid value'' (trim (field_text (f_preferredDate p)))
     @ notEmpty ''preferredTime'' ''Invalid value'' (trim (field_text (f_preferredTime p)))"

text \<open>\<open>req.body\<close> after the chain has run: every field holds its sanitized string.\<close>

record clean =
  s_fullName :: string
  s_email :: string
  s_phone :: string
  s_organization :: string
  s_serviceType :: string
  s_preferredDate :: string
  s_preferredTime :: string
  s_notes :: string

definition sanitize :: "email_rules \<Rightarrow> form \<Rightarrow> clean" where
  "sanitize lib p =
     \<lparr> s_fullName = escape (trim (field_text (f_fullName p))),
       s_email = normalizeEmail lib (field_text (f_email p)),
       s_phone = escape (trim (field_text (f_phone p))),
       s_organization = escape (trim (field_text (f_organization p))),
       s_serviceType = escape (trim (field_text (f_serviceType p))),
       s_preferredDate = escape (trim (field_text (f_preferredDate p))),
       s_preferredTime = escape (trim (field_text (f_preferredTime p))),
       s_notes = escape (trim (field_text (f_notes p))) \<rparr>"

subsection \<open>The two messages\<close>

text \<open>\<open>s || d\<close> on strings: the empty string is falsy.\<close>

definition str_or :: "string \<Rightarrow> string \<Rightarrow> string" where
  "str_or s d = (if s = [] then d else s)"

definition visitorEmail :: "clean \<Rightarrow> string" where
  \<open>visitorEmail f = concat [nl,
     ''      <div style="font-family: Arial, sans-serif; max-width: 600px; margin: 0 auto; padding: 20px;">'', nl,
     ''        <div style="background: linear-gradient(135deg, #0f172a 0%, #1e293b 50%, #0f172a 100%); padding: 30px; border-radius: 10px; text-align: center;">'', nl,
     ''          <h1 style="color: #fff; margin: 0; font-size: 2rem;">ALTURA</h1>'', nl,
     ''          <p style="color: #14b8a6; margin: 10px 0 0 0; font-size: 1.2rem;">Health Strategies</p>'', nl,
     ''        </div>'', nl,
     ''        '', nl,
     ''        <div style="background: #f8fafc; padding: 30px; border-radius: 10px; margin: 20px 0;">'', nl,
     ''          <h2 style="color: #0f766e; margin-bottom: 20px;">Booking Confirmed! '', [CHR 0xF0, CHR 0x9F, CHR 0x8E, CHR 0x89], ''</h2>'', nl,
     ''          <p style="color: #1e293b; line-height: 1.6;">'', nl,
     ''            Dear <strong>'', s_fullName f, ''</strong>,'', nl,
     ''          </p>'', nl,
     ''          <p style="color: #1e293b; line-height: 1.6;">'', nl,
     ''            Thank you for choosing Altura Health Strategies! Your consultation booking has been successfully confirmed.'', nl,
     ''          </p>'', nl,
     ''          '', nl,
     ''          <div style="background: #e0f2fe; padding: 20px; border-radius: 8px; margin: 20px 0; border-left: 4px solid #0284c7;">'', nl,
     ''            <h3 style="color: #0284c7; margin: 0 0 10px 0;">Your Booking Details:</h3>'', nl,
     ''            <p style="margin: 5px 0;"><strong>Service:</strong> '', s_serviceType f, ''</p>'', nl,
     ''            <p style="margin: 5px 0;"><strong>Date:</strong> '', s_preferredDate f, ''</p>'', nl,
     ''            <p style="margin: 5px 0;"><strong>Time:</strong> '', s_preferredTime f, ''</p>'', nl,
     ''          </div>'', nl,
     ''          '', nl,
     ''          <p style="color: #1e293b; line-height: 1.6;">'', nl,
     ''            Our team will review your booking and contact you shortly to confirm all details and answer any questions you may have.'', nl,
     ''          </p>'', nl,
     ''          '', nl,
     ''          <div style="text-align: center; margin: 30px 0;">'', nl,
     ''            <p style="color: #64748b; font-size: 0.9rem;">'', nl,
     ''              For immediate assistance, please contact us at:<br>'', nl,
     ''              '', [CHR 0xF0, CHR 0x9F, CHR 0x93, CHR 0xA7], '' mamlinjohn@gmail.com'', nl,
     ''            </p>'', nl,
     ''          </div>'', nl,
     ''        </div>'', nl,
     ''        '', nl,
     ''        <div style="text-align: center; color: #64748b; font-size: 0.8rem; margin-top: 20px;">'', nl,
     ''          <p>'', [CHR 0xC2, CHR 0xA9], '' 2024 Altura Health Strategies. All rights reserved.</p>'', nl,
     ''        </div>'', nl,
     ''      </div>'', nl,
     ''    '']\<close>

definition companyEmail :: "clean \<Rightarrow> string" where
  \<open>companyEmail f = concat [nl,
     ''      <div style="font-family: sans-serif; color: #1e293b; max-width: 600px;">'', nl,
     ''        <h2 style="color: #0f766e;">'', [CHR 0xF0, CHR 0x9F, CHR 0x93, CHR 0x8B], '' New Consultation Booking</h2>'', nl,
     ''        <table style="width: 100%; border-collapse: collapse; text-align: left; margin-top: 20px;">'', nl,
     ''          <thead>'', nl,
     ''            <tr style="background-color: #f1f5f9;">'', nl,
     ''              <th style="border: 1px solid #cbd5e1; padding: 12px; width: 30%;">Field</th>'', nl,
     ''              <th style="border: 1px solid #cbd5e1; padding: 12px;">Client Data</th>'', nl,
     ''            </tr>'', nl,
     ''          </thead>'', nl,
     ''          <tbody>'', nl,
     ''            <tr><td style="border: 1px solid #cbd5e1; padding: 10px;"><strong>Name</strong></td><td style="border: 1px solid #cbd5e1; padding: 10px;">'', s_fullName f, ''</td></tr>'', nl,
     ''            <tr><td style="border: 1px solid #cbd5e1; padding: 10px;"><strong>Email</strong></td><td style="border: 1px solid #cbd5e1; padding: 10px;">'', s_email f, ''</td></tr>'', nl,
     ''            <tr><td style="border: 1px solid #cbd5e1; padding: 10px;"><strong>Phone</strong></td><td style="border: 1px solid #cbd5e1; padding: 10px;">'', str_or (s_phone f) ''N/A'', ''</td></tr>'', nl,
     ''            <tr><td style="border: 1px solid #cbd5e1; padding: 10px;"><strong>Organization</strong></td><td style="border: 1px solid #cbd5e1; padding: 10px;">'', str_or (s_organization f) ''N/A'', ''</td></tr>'', nl,
     ''            <tr><td style="border: 1px solid #cbd5e1; padding: 10px;"><strong>Service</strong></td><td style="border: 1px solid #cbd5e1; padding: 10px;">'', s_serviceType f, ''</td></tr>'', nl,
     ''            <tr><td style="border: 1px solid #cbd5e1; padding: 10px;"><strong>Date</strong></td><td style="border: 1px solid #cbd5e1; padding: 10px;">'', s_preferredDate f, ''</td></tr>'', nl,
     ''            <tr><td style="border: 1px solid #cbd5e1; padding: 10px;"><strong>Time</strong></td><td style="border: 1px solid #cbd5e1; padding: 10px;">'', s_preferredTime f, ''</td></tr>'', nl,
     ''            <tr><td style="border: 1px solid #cbd5e1; padding: 10px;"><strong>Notes</strong></td><td style="border: 1px solid #cbd5e1; padding: 10px;">'', str_or (s_notes f) ''N/A'', ''</td></tr>'', nl,
     ''          </tbody>'', nl,
     ''        </table>'', nl,
     ''      </div>'', nl,
     ''    '']\<close>

definition visitor_mail :: "env \<Rightarrow> clean \<Rightarrow> mail" where
  \<open>visitor_mail e f =
     \<lparr> mail_from = ''"Altura Booking System" <'' @ env_text e ''EMAIL_USER'' @ ''>'',
       mail_to = JStr (s_email f),
       mail_replyTo = None,
       mail_subject = ''Booking Confirmation: '' @ s_fullName f @ '' - ''
                        @ str_or (s_organization f) ''Individual'',
       mail_html = visitorEmail f \<rparr>\<close>

definition company_mail :: "env \<Rightarrow> clean \<Rightarrow> mail" where
  \<open>company_mail e f =
     \<lparr> mail_from = ''"Altura Booking System" <'' @ env_text e ''EMAIL_USER'' @ ''>'',
       mail_to = env_val e ''RECEIVER_EMAIL'',
       mail_replyTo = Some (s_email f),
       mail_subject = [CHR 0xF0, CHR 0x9F, CHR 0x93, CHR 0x8B] @ '' New Booking: '' @ s_fullName f
                        @ '' - '' @ str_or (s_organization f) ''Individual'',
       mail_html = companyEmail f \<rparr>\<close>

subsection \<open>The route and the application\<close>

definition bookingLimiter :: "rate_store \<Rightarrow> string \<Rightarrow> nat \<Rightarrow> rate_store \<times> middleware_result" where
  "bookingLimiter =
     rateLimit (15 * 60 * 1000) 5
       (JObj [(''error'',
          JStr ''Too many booking requests from this IP, please try again after 15 minutes.'')])"

text \<open>An entry as express-validator writes it into the reply.\<close>

definition error_json :: "validation_error \<Rightarrow> jsval" where
  "error_json err =
     res_json [(''type'', JStr ''field''), (''value'', err_value err), (''msg'', JStr (err_msg err)),
               (''path'', JStr (err_path err)), (''location'', JStr ''body'')]"

text \<open>
  The route's handler: the result of the chain is checked first; then the two sends are
  awaited one after the other inside one \<open>try\<close>, so a rejected first send goes straight to
  the \<open>catch\<close>.
\<close>

definition secure_booking_handler ::
  "email_rules \<Rightarrow> env \<Rightarrow> dispatcher \<Rightarrow> form \<Rightarrow> reply \<times> mail list" where
  "secure_booking_handler lib e sendMail p =
     (let errors = validationResult lib p in
      if errors \<noteq> []
      then (Json 400 (res_json [(''error'', JStr ''Invalid input data''),
                                (''details'', JArr (map error_json errors))]), [])
      else
        let f = sanitize lib p;
            failed = Json 500 (res_json [(''error'',
                       JStr ''Failed to process booking. Please try again later.'')])
        in case sendMail (visitor_mail e f) of
             Inl err \<Rightarrow> (failed, [visitor_mail e f])
           | Inr sent1 \<Rightarrow>
               (case sendMail (company_mail e f) of
                  Inl err \<Rightarrow> (failed, [visitor_mail e f, company_mail e f])
                | Inr sent2 \<Rightarrow>
                    (Json 200 (res_json [(''message'',
                       JStr ''Booking confirmed! Check your email for confirmation.'')]),
                     [visitor_mail e f, company_mail e f])))"

text \<open>
  The application: CORS options, the 10 kB parser limit, the limiter and the handler.
  \<open>helmet()\<close> only adds response headers and is left out.
\<close>

definition secure_app ::
  "email_rules \<Rightarrow> env \<Rightarrow> dispatcher \<Rightarrow> rate_store \<Rightarrow> form request \<Rightarrow> outcome" where
  "secure_app lib e sendMail =
     express_app secure_cors (kb 10) bookingLimiter (secure_booking_handler lib e sendMail)"

text \<open>
  Start-up: no environment variable is checked. The callback of \<open>transporter.verify\<close>
  (\<open>verify_error\<close> is its error, \<open>None\<close> on success) writes one line to the console, and
  \<open>app.listen\<close> is reached whatever it reports.
\<close>

definition verify_callback :: "string option \<Rightarrow> string" where
  "verify_callback verify_error =
     (case verify_error of
        Some err \<Rightarrow> [CHR 0xE2, CHR 0x9D, CHR 0x8C] @ '' Email config error: '' @ err
      | None \<Rightarrow> [CHR 0xE2, CHR 0x9C, CHR 0x85] @ '' Mail server is ready to send messages'')"

definition secure_startup :: "env \<Rightarrow> string option \<Rightarrow> process \<times> string list" where
  "secure_startup e verify_error =
     (Listening (js_or (env_val e ''PORT'') (JNum 5000)),
      [verify_callback verify_error])"

definition secure_server ::
  "email_rules \<Rightarrow> env \<Rightarrow> dispatcher \<Rightarrow> string option \<Rightarrow> form request list
     \<Rightarrow> process \<times> outcome list" where
  "secure_server lib e sendMail verify_error rs =
     (case fst (secure_startup e verify_error) of
        Exited code \<Rightarrow> (Exited code, [])
      | Listening port \<Rightarrow> (Listening port, serve (secure_app lib e sendMail) Map.empty rs))"

section \<open>Notions the properties are stated with\<close>

text \<open>
  The gatekeeper forwards a request to the route's handlers when the body is within the
  parser's limit and the rate limiter calls \<open>next\<close>.
\<close>

definition forwards ::
  "nat \<Rightarrow> (rate_store \<Rightarrow> string \<Rightarrow> nat \<Rightarrow> rate_store \<times> middleware_result)
     \<Rightarrow> rate_store \<Rightarrow> 'b request \<Rightarrow> bool" where
  "forwards limit lim st r =
     (req_bytes r \<le> limit \<and> snd (lim st (req_ip r) (req_time r)) = Next)"

definition server_forwards :: "rate_store \<Rightarrow> body request \<Rightarrow> bool" where
  "server_forwards st r = forwards default_json_limit limiter st r"

definition secure_forwards :: "rate_store \<Rightarrow> form request \<Rightarrow> bool" where
  "secure_forwards st r = forwards (kb 10) bookingLimiter st r"

text \<open>
  The characters that open or close markup or an attribute value, and the character
  references \<open>escape\<close> writes. A string is \<open>escaped\<close> when it holds no markup character and
  each \<open>&\<close> in it starts one of these references.
\<close>

definition is_markup :: "char \<Rightarrow> bool" where
  "is_markup c = (c = CHR ''<'' \<or> c = CHR ''>'' \<or> c = CHR 0x22 \<or> c = CHR 0x27)"

definition references :: "string list" where
  "references =
     [''&amp;'', ''&quot;'', ''&#x27;'', ''&lt;'', ''&gt;'', ''&#x2F;'', ''&#x5C;'', ''&#96;'']"

fun amp_ok :: "string \<Rightarrow> bool" where
  "amp_ok [] = True"
| "amp_ok (c # cs) =
     ((if c = CHR ''&'' then list_ex (\<lambda>e. prefix e (c # cs)) references else True) \<and> amp_ok cs)"

definition escaped :: "string \<Rightarrow> bool" where
  "escaped s = (filter is_markup s = [] \<and> amp_ok s)"

text \<open>
  The values that the template literals of \<open>server.js\<close> convert to strings while the
  message is built.
\<close>

definition interpolated :: "body \<Rightarrow> jsval list" where
  "interpolated b =
     [fullName b, email b, js_or (phone b) (JStr ''Not provided''),
      js_or (organization b) (JStr ''Not provided''), serviceType b, preferredDate b,
      preferredTime b, js_or (notes_field b) (JStr ''None'')]"

subsection \<open>Example inputs\<close>

text \<open>The booking of the specification's example, as each variant reads it.\<close>

definition jane :: body where
  "jane =
     \<lparr> fullName = JStr ''Jane Doe'', email = JStr ''jane@x.com'', phone = JUndefined,
       organization = JUndefined, serviceType = JStr ''Consult'',
       preferredDate = JStr ''2025-01-10'', preferredTime = JStr ''10:00'',
       notes_field = JUndefined \<rparr>"

definition jane_form :: form where
  "jane_form =
     \<lparr> f_fullName = Some ''Jane Doe'', f_email = Some ''jane@x.com'', f_phone = None,
       f_organization = None, f_serviceType = Some ''Consult'',
       f_preferredDate = Some ''2025-01-10'', f_preferredTime = Some ''10:00'',
       f_notes = None \<rparr>"

text \<open>A stand-in for the mailbox rules: an address holds an \<open>@\<close>, and is its own normal form.\<close>

definition has_at :: email_rules where
  "has_at = \<lparr> isEmail = (\<lambda>s. CHR ''@'' \<in> set s), normalizeEmail = (\<lambda>s. s) \<rparr>"

definition accepting :: dispatcher where
  "accepting m = Inr (JObj [(''id'', JStr ''msg-1'')])"

definition rejecting :: dispatcher where
  "rejecting m = Inl ''ECONNREFUSED 127.0.0.1:465''"

text \<open>A collaborator that accepts the message to the visitor and rejects the other one.\<close>

definition rejecting_second :: dispatcher where
  "rejecting_second m =
     (case mail_replyTo m of
        None \<Rightarrow> Inr (JObj [(''id'', JStr ''msg-1'')])
      | Some a \<Rightarrow> Inl ''550 mailbox unavailable'')"

text \<open>
  The Resend client when the provider refuses the message: the promise resolves to an
  object that carries the error.
\<close>

definition refused :: dispatcher where
  "refused m =
     Inr (JObj [(''data'', JNull),
                (''error'', JObj [(''statusCode'', JNum 422), (''name'', JStr ''validation_error''),
                                  (''message'', JStr ''Invalid `from` field.'')])])"

definition configured :: env where
  "configured k =
     (if k \<in> {''RESEND_API_KEY'', ''FROM_EMAIL'', ''ADMIN_EMAIL'', ''EMAIL_USER'', ''EMAIL_PASS'',
               ''RECEIVER_EMAIL''}
      then Some (''value-of-'' @ k) else None)"

definition unconfigured :: env where
  "unconfigured k = None"

definition from_client :: "string \<Rightarrow> nat \<Rightarrow> 'b \<Rightarrow> 'b request" where
  "from_client ip t b =
     \<lparr> req_origin = None, req_ip = ip, req_time = t, req_bytes = 200, req_body = b \<rparr>"

section \<open>Auxiliary facts\<close>

subsection \<open>The pipeline\<close>

lemma express_app_forwards:
  assumes "forwards limit lim st r"
  shows "express_app opts limit lim route st r =
           \<lparr> out_reply = fst (route (req_body r)),
             out_allow_origin = allow_origin opts (req_origin r),
             out_sent = snd (route (req_body r)),
             out_store = fst (lim st (req_ip r) (req_time r)) \<rparr>"
  using assms
  by (cases "lim st (req_ip r) (req_time r)")
     (auto simp: forwards_def express_app_def express_json_def split: prod.splits)

lemma forwards_fresh:
  "req_bytes r \<le> limit \<Longrightarrow> 0 < mx \<Longrightarrow> forwards limit (rateLimit W mx msg) Map.empty r"
  by (simp add: forwards_def rateLimit_def Let_def current_window_def)

lemma server_forwards_fresh: "server_forwards Map.empty (from_client ip t b)"
  unfolding server_forwards_def limiter_def
  by (rule forwards_fresh) (simp_all add: from_client_def default_json_limit_def kb_def)

lemma secure_forwards_fresh: "secure_forwards Map.empty (from_client ip t b)"
  unfolding secure_forwards_def bookingLimiter_def
  by (rule forwards_fresh) (simp_all add: from_client_def kb_def)

lemma from_client_body [simp]: "req_body (from_client ip t b) = b"
  by (simp add: from_client_def)

lemma server_app_forwards:
  "server_forwards st r \<Longrightarrow>
     out_reply (server_app e send st r) = fst (booking_route e send (req_body r)) \<and>
     out_sent (server_app e send st r) = snd (booking_route e send (req_body r))"
  by (simp add: server_app_def server_forwards_def express_app_forwards)

lemma secure_app_forwards:
  "secure_forwards st r \<Longrightarrow>
     out_reply (secure_app lib e send st r) = fst (secure_booking_handler lib e send (req_body r)) \<and>
     out_sent (secure_app lib e send st r) = snd (secure_booking_handler lib e send (req_body r))"
  by (simp add: secure_app_def secure_forwards_def express_app_forwards)

lemma length_serve: "length (serve app st rs) = length rs"
  by (induction rs arbitrary: st) (simp_all add: Let_def)

lemma express_app_origin:
  "out_reply (express_app opts limit lim route st (r \<lparr> req_origin := x \<rparr>))
     = out_reply (express_app opts limit lim route st r)
   \<and> out_sent (express_app opts limit lim route st (r \<lparr> req_origin := x \<rparr>))
     = out_sent (express_app opts limit lim route st r)"
  by (simp add: express_app_def Let_def split: middleware_result.splits prod.splits)

lemma express_app_allow_origin:
  "out_allow_origin (express_app opts limit lim route st r) = allow_origin opts (req_origin r)"
  by (simp add: express_app_def Let_def split: middleware_result.splits prod.splits)

lemma express_app_sent:
  "set (out_sent (express_app opts limit lim route st r)) \<subseteq> set (snd (route (req_body r)))"
  by (simp add: express_app_def Let_def split: middleware_result.splits prod.splits)

lemma express_app_sent_reply:
  "m \<in> set (out_sent (express_app opts limit lim route st r)) \<Longrightarrow>
     out_reply (express_app opts limit lim route st r) = fst (route (req_body r))
     \<and> out_sent (express_app opts limit lim route st r) = snd (route (req_body r))"
  by (auto simp: express_app_def Let_def split: middleware_result.splits prod.splits)

subsection \<open>Template literals\<close>

lemma template_isl:
  "isl (template ps) \<longleftrightarrow> (\<exists>v. Subst v \<in> set ps \<and> isl (js_to_string v))"
  by (induction ps rule: template.induct) (auto split: sum.splits)

lemma sublist_prepend: "sublist x t \<Longrightarrow> sublist x (s @ t)"
proof -
  assume "sublist x t"
  then obtain ps ss where "t = ps @ x @ ss" by (auto simp: sublist_def)
  then have "s @ t = (s @ ps) @ x @ ss" by simp
  then show ?thesis unfolding sublist_def by blast
qed

lemma template_sublist:
  "template ps = Inr h \<Longrightarrow> Subst v \<in> set ps \<Longrightarrow> \<exists>s. js_to_string v = Inr s \<and> sublist s h"
proof (induction ps arbitrary: h rule: template.induct)
  case 1
  then show ?case by simp
next
  case (2 s ps)
  then obtain t where t: "template ps = Inr t" "h = s @ t"
    by (auto split: sum.splits)
  with 2 obtain x where x: "js_to_string v = Inr x" "sublist x t" by auto
  from x(2) have "sublist x (s @ t)" by (rule sublist_prepend)
  with x t show ?case by auto
next
  case (3 w ps)
  then obtain s t where t: "js_to_string w = Inr s" "template ps = Inr t" "h = s @ t"
    by (auto split: sum.splits)
  show ?case
  proof (cases "v = w")
    case True
    have "sublist s (s @ t)" by (rule prefix_imp_sublist) simp
    with True t show ?thesis by auto
  next
    case False
    with 3 t obtain x where x: "js_to_string v = Inr x" "sublist x t" by auto
    from x(2) have "sublist x (s @ t)" by (rule sublist_prepend)
    with x t show ?thesis by auto
  qed
qed

lemma admin_html_isl:
  "isl (admin_html b) \<longleftrightarrow> (\<exists>v \<in> set (interpolated b). isl (js_to_string v))"
  unfolding admin_html_def template_isl interpolated_def by auto

lemma admin_html_sublist:
  assumes "admin_html b = Inr h" and "v \<in> set (interpolated b)"
  shows "\<exists>s. js_to_string v = Inr s \<and> sublist s h"
  using assms(2)
  by (intro template_sublist [OF assms(1) [unfolded admin_html_def]])
     (auto simp: interpolated_def)

lemma admin_mail_isl:
  "isl (admin_mail e b) \<longleftrightarrow> (\<exists>v \<in> set (interpolated b). isl (js_to_string v))"
proof -
  have "isl (admin_mail e b) \<longleftrightarrow> isl (js_to_string (fullName b)) \<or> isl (admin_html b)"
    by (auto simp: admin_mail_def split: sum.splits)
  also have "\<dots> \<longleftrightarrow> (\<exists>v \<in> set (interpolated b). isl (js_to_string v))"
    by (auto simp: admin_html_isl) (simp add: interpolated_def)
  finally show ?thesis .
qed

lemma admin_mail_built:
  assumes "admin_mail e b = Inr m"
  shows "mail_to m = JArr [env_val e ''ADMIN_EMAIL'']" and "mail_replyTo m = None"
    and "admin_html b = Inr (mail_html m)"
  using assms by (auto simp: admin_mail_def split: sum.splits)

lemma jane_built: "\<not> isl (admin_mail e jane)"
  by (simp add: admin_mail_isl interpolated_def jane_def js_or_def)

subsection \<open>Validation and the handlers\<close>

lemma jane_valid: "validateBooking jane = Next"
  by (simp add: validateBooking_def jane_def)

lemma jane_form_valid: "validationResult has_at jane_form = []"
  by code_simp

lemma booking_route_valid:
  "validateBooking b = Next \<Longrightarrow> booking_route e send b = booking_handler e send b"
  by (simp add: booking_route_def)

lemma secure_handler_sent:
  "validationResult lib p = [] \<Longrightarrow>
     snd (secure_booking_handler lib e send p) =
       (case send (visitor_mail e (sanitize lib p)) of
          Inl err \<Rightarrow> [visitor_mail e (sanitize lib p)]
        | Inr i \<Rightarrow> [visitor_mail e (sanitize lib p), company_mail e (sanitize lib p)])"
  by (simp add: secure_booking_handler_def Let_def split: sum.splits)

lemma validationResult_empty_iff:
  "validationResult lib p = [] \<longleftrightarrow>
     trim (field_text (f_fullName p)) \<noteq> [] \<and> isEmail lib (field_text (f_email p))
     \<and> trim (field_text (f_serviceType p)) \<noteq> [] \<and> trim (field_text (f_preferredDate p)) \<noteq> []
     \<and> trim (field_text (f_preferredTime p)) \<noteq> []"
  by (simp add: validationResult_def notEmpty_def)

lemma secure_handler_bodies:
  "m \<in> set (snd (secure_booking_handler lib e sendMail p)) \<Longrightarrow>
     mail_html m = visitorEmail (sanitize lib p) \<or> mail_html m = companyEmail (sanitize lib p)"
  by (auto simp: secure_booking_handler_def Let_def visitor_mail_def company_mail_def
        split: if_splits sum.splits)

lemma booking_handler_sent:
  "snd (booking_handler e send b) = (case admin_mail e b of Inl err \<Rightarrow> [] | Inr m \<Rightarrow> [m])"
  by (simp add: booking_handler_def Let_def split: sum.splits)

lemma booking_handler_thrown:
  "isl (admin_mail e b) \<Longrightarrow>
     booking_handler e send b
       = (Json 500 (res_json [(''error'',
            JStr ''Failed to send booking. Please try again or contact us directly.'')]), [])"
  by (auto simp: booking_handler_def Let_def split: sum.splits)

lemma booking_handler_accepted:
  "\<not> isl (admin_mail e b) \<Longrightarrow>
     fst (booking_handler e accepting b)
       = Json 200 (JObj [(''message'', JStr ''Booking submitted successfully''),
                         (''id'', JStr ''msg-1''), (''status'', JStr ''confirmed'')])
     \<and> length (snd (booking_handler e accepting b)) = 1"
  by (auto simp: booking_handler_def Let_def accepting_def res_json_def split: sum.splits)

lemma secure_handler_invalid:
  "validationResult lib p \<noteq> [] \<Longrightarrow>
     reply_status (fst (secure_booking_handler lib e send p)) = 400
     \<and> snd (secure_booking_handler lib e send p) = []"
  by (simp add: secure_booking_handler_def Let_def)

lemma secure_handler_accepted:
  "validationResult lib p = [] \<Longrightarrow>
     fst (secure_booking_handler lib e accepting p)
       = Json 200 (JObj [(''message'',
           JStr ''Booking confirmed! Check your email for confirmation.'')])"
  by (simp add: secure_booking_handler_def Let_def accepting_def res_json_def)

lemma validateBooking_falsy:
  "\<not> truthy (fullName b) \<or> \<not> truthy (email b) \<or> \<not> truthy (serviceType b)
     \<or> \<not> truthy (preferredDate b) \<or> \<not> truthy (preferredTime b)
   \<Longrightarrow> validateBooking b = Respond (Json 400 (JObj [(''error'', JStr ''Missing required fields'')]))"
  by (simp add: validateBooking_def res_json_def)

lemma booking_route_bodies:
  "m \<in> set (snd (booking_route e send b)) \<Longrightarrow> admin_html b = Inr (mail_html m)"
  by (auto simp: booking_route_def booking_handler_sent admin_mail_def
        split: middleware_result.splits sum.splits)

lemma secure_handler_failure:
  "m \<in> set (snd (secure_booking_handler lib e sendMail p)) \<Longrightarrow> sendMail m = Inl err \<Longrightarrow>
     fst (secure_booking_handler lib e sendMail p)
       = Json 500 (JObj [(''error'', JStr ''Failed to process booking. Please try again later.'')])"
  by (auto simp: secure_booking_handler_def Let_def res_json_def split: if_splits sum.splits)

lemma booking_route_failure:
  "m \<in> set (snd (booking_route e send b)) \<Longrightarrow> send m = Inl err \<Longrightarrow>
     fst (booking_route e send b)
       = Json 500 (JObj [(''error'',
              JStr ''Failed to send booking. Please try again or contact us directly.'')])"
  by (auto simp: booking_route_def booking_handler_def Let_def res_json_def
        split: middleware_result.splits sum.splits)

subsection \<open>The rate window\<close>

lemma express_app_store_other:
  "k \<noteq> req_ip r \<Longrightarrow>
     out_store (express_app opts limit (rateLimit W mx msg) route st r) k = st k"
  by (simp add: express_app_def express_json_def rateLimit_def Let_def split: prod.splits)

lemma express_app_store_self:
  "req_bytes r \<le> limit \<Longrightarrow>
     out_store (express_app opts limit (rateLimit W mx msg) route st r) (req_ip r)
       = Some ((current_window W st (req_ip r) (req_time r))
                 \<lparr> hits := hits (current_window W st (req_ip r) (req_time r)) + 1 \<rparr>)"
  by (simp add: express_app_def express_json_def rateLimit_def Let_def split: prod.splits)

lemma current_window_live:
  "st k = Some w \<Longrightarrow> t < reset_at w \<Longrightarrow> current_window W st k t = w"
  by (simp add: current_window_def)

lemma express_app_live:
  assumes "req_bytes r \<le> limit" and "st (req_ip r) = Some w" and "req_time r < reset_at w"
  shows "out_store (express_app opts limit (rateLimit W mx msg) route st r) (req_ip r)
           = Some (w \<lparr> hits := hits w + 1 \<rparr>)"
  using assms by (simp add: express_app_store_self current_window_live)

lemma express_app_blocked:
  assumes "req_bytes r \<le> limit" and "st (req_ip r) = Some w" and "req_time r < reset_at w"
    and "mx \<le> hits w"
  shows "out_reply (express_app opts limit (rateLimit W mx msg) route st r) = Json 429 msg"
    and "out_sent (express_app opts limit (rateLimit W mx msg) route st r) = []"
  using assms
  by (simp_all add: express_app_def express_json_def rateLimit_def Let_def current_window_live)

lemma express_app_depends_on_own_window:
  assumes "st1 (req_ip r) = st2 (req_ip r)"
  shows "out_reply (express_app opts limit (rateLimit W mx msg) route st1 r)
           = out_reply (express_app opts limit (rateLimit W mx msg) route st2 r)"
    and "out_sent (express_app opts limit (rateLimit W mx msg) route st1 r)
           = out_sent (express_app opts limit (rateLimit W mx msg) route st2 r)"
  using assms
  by (simp_all add: express_app_def express_json_def rateLimit_def Let_def current_window_def
        split: prod.splits)

lemma six_requests_limited:
  fixes opts :: cors_options and limit W :: nat and msg :: jsval
    and route :: "'b \<Rightarrow> reply \<times> mail list"
    and app :: "rate_store \<Rightarrow> 'b request \<Rightarrow> outcome"
  defines "app \<equiv> express_app opts limit (rateLimit W 5 msg) route"
  assumes ip: "\<forall>r \<in> set [r1, r2, r3, r4, r5, r6]. req_ip r = ip \<and> req_bytes r \<le> limit"
    and win: "\<forall>r \<in> set [r2, r3, r4, r5, r6].
                req_time r < reset_at (current_window W st ip (req_time r1))"
  shows "out_reply (last (serve app st [r1, r2, r3, r4, r5, r6])) = Json 429 msg"
    and "out_sent (last (serve app st [r1, r2, r3, r4, r5, r6])) = []"
    and "req_ip r' \<noteq> ip \<Longrightarrow>
           out_reply (app (out_store (last (serve app st [r1, r2, r3, r4, r5, r6]))) r')
             = out_reply (app st r')
           \<and> out_sent (app (out_store (last (serve app st [r1, r2, r3, r4, r5, r6]))) r')
             = out_sent (app st r')"
proof -
  define w0 where "w0 = current_window W st ip (req_time r1)"
  define s1 where "s1 = out_store (app st r1)"
  define s2 where "s2 = out_store (app s1 r2)"
  define s3 where "s3 = out_store (app s2 r3)"
  define s4 where "s4 = out_store (app s3 r4)"
  define s5 where "s5 = out_store (app s4 r5)"
  define s6 where "s6 = out_store (app s5 r6)"
  have rs: "req_ip r1 = ip" "req_ip r2 = ip" "req_ip r3 = ip" "req_ip r4 = ip" "req_ip r5 = ip"
    "req_ip r6 = ip" "req_bytes r1 \<le> limit" "req_bytes r2 \<le> limit" "req_bytes r3 \<le> limit"
    "req_bytes r4 \<le> limit" "req_bytes r5 \<le> limit" "req_bytes r6 \<le> limit"
    using ip by simp_all
  have ts: "req_time r2 < reset_at w0" "req_time r3 < reset_at w0" "req_time r4 < reset_at w0"
    "req_time r5 < reset_at w0" "req_time r6 < reset_at w0"
    using win by (simp_all add: w0_def)
  have 1: "s1 ip = Some (w0 \<lparr> hits := hits w0 + 1 \<rparr>)"
    using express_app_store_self [of r1 limit opts W 5 msg route st] rs
    by (simp add: s1_def app_def w0_def)
  have 2: "s2 ip = Some (w0 \<lparr> hits := hits w0 + 2 \<rparr>)"
    using express_app_live [of r2 limit s1 "w0 \<lparr> hits := hits w0 + 1 \<rparr>" opts W 5 msg route] rs ts 1
    by (simp add: s2_def app_def)
  have 3: "s3 ip = Some (w0 \<lparr> hits := hits w0 + 3 \<rparr>)"
    using express_app_live [of r3 limit s2 "w0 \<lparr> hits := hits w0 + 2 \<rparr>" opts W 5 msg route] rs ts 2
    by (simp add: s3_def app_def)
  have 4: "s4 ip = Some (w0 \<lparr> hits := hits w0 + 4 \<rparr>)"
    using express_app_live [of r4 limit s3 "w0 \<lparr> hits := hits w0 + 3 \<rparr>" opts W 5 msg route] rs ts 3
    by (simp add: s4_def app_def)
  have 5: "s5 ip = Some (w0 \<lparr> hits := hits w0 + 5 \<rparr>)"
    using express_app_live [of r5 limit s4 "w0 \<lparr> hits := hits w0 + 4 \<rparr>" opts W 5 msg route] rs ts 4
    by (simp add: s5_def app_def)
  have l: "last (serve app st [r1, r2, r3, r4, r5, r6]) = app s5 r6"
    by (simp add: Let_def s1_def s2_def s3_def s4_def s5_def)
  have b1: "out_reply (app s5 r6) = Json 429 msg"
    using express_app_blocked(1) [of r6 limit s5 "w0 \<lparr> hits := hits w0 + 5 \<rparr>" 5 opts W msg route]
      rs ts 5 by (simp add: app_def)
  have b2: "out_sent (app s5 r6) = []"
    using express_app_blocked(2) [of r6 limit s5 "w0 \<lparr> hits := hits w0 + 5 \<rparr>" 5 opts W msg route]
      rs ts 5 by (simp add: app_def)
  show "out_reply (last (serve app st [r1, r2, r3, r4, r5, r6])) = Json 429 msg"
    by (simp only: l b1)
  show "out_sent (last (serve app st [r1, r2, r3, r4, r5, r6])) = []"
    by (simp only: l b2)
  assume other: "req_ip r' \<noteq> ip"
  have "s6 (req_ip r') = st (req_ip r')"
    using other rs
    by (simp add: s6_def s5_def s4_def s3_def s2_def s1_def app_def express_app_store_other)
  then have "out_reply (app s6 r') = out_reply (app st r')
      \<and> out_sent (app s6 r') = out_sent (app st r')"
    using express_app_depends_on_own_window [of s6 r' st opts limit W 5 msg route]
    by (simp add: app_def)
  then show "out_reply (app (out_store (last (serve app st [r1, r2, r3, r4, r5, r6]))) r')
             = out_reply (app st r')
           \<and> out_sent (app (out_store (last (serve app st [r1, r2, r3, r4, r5, r6]))) r')
             = out_sent (app st r')"
    by (simp only: l s6_def)
qed

subsection \<open>Escaping and the message bodies\<close>

lemma markup_escape_char: "filter is_markup (escape_char c) = []"
  by (simp add: escape_char_def is_markup_def)

lemma markup_escape: "filter is_markup (escape s) = []"
  by (induction s) (simp_all add: escape_def markup_escape_char)

lemma amp_ok_escape_char: "amp_ok rest \<Longrightarrow> amp_ok (escape_char c @ rest)"
  by (simp add: escape_char_def references_def)

lemma amp_ok_escape: "amp_ok (escape s)"
  by (induction s) (simp_all add: escape_def amp_ok_escape_char)

lemma escaped_escape: "escaped (escape s)"
  by (simp add: escaped_def markup_escape amp_ok_escape)

lemma markup_str_or_NA: "filter is_markup (str_or (escape s) ''N/A'') = []"
  by (simp add: str_or_def markup_escape is_markup_def)

lemma visitor_markup:
  "filter is_markup (visitorEmail (sanitize lib p)) = filter is_markup (visitorEmail (sanitize lib q))"
  by (simp only: visitorEmail_def sanitize_def filter_concat list.map clean.select_convs
        markup_escape)

lemma company_markup:
  "s_email (sanitize lib p) = s_email (sanitize lib q) \<Longrightarrow>
   filter is_markup (companyEmail (sanitize lib p)) = filter is_markup (companyEmail (sanitize lib q))"
  by (simp only: companyEmail_def sanitize_def filter_concat list.map clean.select_convs
        markup_escape markup_str_or_NA)

lemma rejected_send_generic:
  "(m \<in> set (out_sent (secure_app lib e sendMail st r)) \<and> sendMail m = Inl err
    \<longrightarrow> out_reply (secure_app lib e sendMail st r)
          = Json 500 (JObj [(''error'', JStr ''Failed to process booking. Please try again later.'')]))
   \<and> (m' \<in> set (out_sent (server_app e' send st' r')) \<and> send m' = Inl err'
    \<longrightarrow> out_reply (server_app e' send st' r')
          = Json 500 (JObj [(''error'',
              JStr ''Failed to send booking. Please try again or contact us directly.'')]))"
proof (intro conjI impI; elim conjE)
  assume m: "m \<in> set (out_sent (secure_app lib e sendMail st r))" and f: "sendMail m = Inl err"
  from express_app_sent_reply [OF m [unfolded secure_app_def], folded secure_app_def]
  have eq: "out_reply (secure_app lib e sendMail st r)
        = fst (secure_booking_handler lib e sendMail (req_body r))"
      "out_sent (secure_app lib e sendMail st r)
        = snd (secure_booking_handler lib e sendMail (req_body r))"
    by simp_all
  with m f show "out_reply (secure_app lib e sendMail st r)
          = Json 500 (JObj [(''error'', JStr ''Failed to process booking. Please try again later.'')])"
    by (simp add: secure_handler_failure)
next
  assume m: "m' \<in> set (out_sent (server_app e' send st' r'))" and f: "send m' = Inl err'"
  from express_app_sent_reply [OF m [unfolded server_app_def], folded server_app_def]
  have eq: "out_reply (server_app e' send st' r') = fst (booking_route e' send (req_body r'))"
      "out_sent (server_app e' send st' r') = snd (booking_route e' send (req_body r'))"
    by simp_all
  with m f show "out_reply (server_app e' send st' r')
          = Json 500 (JObj [(''error'',
              JStr ''Failed to send booking. Please try again or contact us directly.'')])"
    by (simp add: booking_route_failure)
qed

lemma express_app_oversize:
  "limit < req_bytes r \<Longrightarrow>
     express_app opts limit lim route st r
       = \<lparr> out_reply = ExpressError PayloadTooLargeError,
           out_allow_origin = allow_origin opts (req_origin r), out_sent = [], out_store = st \<rparr>"
  by (simp add: express_app_def express_json_def Let_def)

lemma jane_text_built:
  "\<not> isl (admin_mail e (jane \<lparr> fullName := JStr s \<rparr>))"
  by (simp add: admin_mail_isl interpolated_def jane_def js_or_def)

lemma server_app_jane:
  assumes "server_forwards st r" and "validateBooking (req_body r) = Next"
    and "\<not> isl (admin_mail e (req_body r))"
  shows "out_reply (server_app e accepting st r)
           = Json 200 (JObj [(''message'', JStr ''Booking submitted successfully''),
                             (''id'', JStr ''msg-1''), (''status'', JStr ''confirmed'')])"
    and "length (out_sent (server_app e accepting st r)) = 1"
  using assms by (simp_all add: server_app_forwards booking_route_valid booking_handler_accepted)

section \<open>The claims\<close>

subsection \<open>C1\<close>

text \<open>
  C1 (amended). Of a booking that the gatekeeper forwards and that passes validation: in the
  nodemailer variant (fields absent or strings), when the first send succeeds, exactly two
  messages are handed to the mail collaborator; the recipient of the first is the
  normalized form of the submitted email (\<open>normalizeEmail\<close>), the recipient of the second
  is the configured \<open>RECEIVER_EMAIL\<close>, and the reply address of the second is the
  normalized email. In the Resend variant, when every value interpolated into the message
  converts to a string, exactly one message is handed over, to the configured
  \<open>ADMIN_EMAIL\<close>, without a reply address; when one does not (an object with a key
  \<open>toString\<close> of its own), the template literal throws inside \<open>try\<close>, no message is handed
  over and the reply is 500.
\<close>

theorem dispatch_calls:
  "(secure_forwards st r \<and> validationResult lib (req_body r) = []
      \<and> sendMail (visitor_mail e (sanitize lib (req_body r))) = Inr i
    \<longrightarrow> (\<exists>m1 m2. out_sent (secure_app lib e sendMail st r) = [m1, m2]
           \<and> mail_to m1 = JStr (normalizeEmail lib (field_text (f_email (req_body r))))
           \<and> mail_to m2 = env_val e ''RECEIVER_EMAIL''
           \<and> mail_replyTo m2 = Some (normalizeEmail lib (field_text (f_email (req_body r))))))
   \<and> (server_forwards st' r' \<and> validateBooking (req_body r') = Next
      \<and> (\<forall>v \<in> set (interpolated (req_body r')). \<not> isl (js_to_string v))
    \<longrightarrow> (\<exists>m. out_sent (server_app e' send st' r') = [m]
           \<and> mail_to m = JArr [env_val e' ''ADMIN_EMAIL'']
           \<and> mail_replyTo m = None))
   \<and> (server_forwards st' r' \<and> validateBooking (req_body r') = Next
      \<and> (\<exists>v \<in> set (interpolated (req_body r')). isl (js_to_string v))
    \<longrightarrow> out_sent (server_app e' send st' r') = []
        \<and> reply_status (out_reply (server_app e' send st' r')) = 500)"
proof (intro conjI impI; (elim conjE)?)
  assume "secure_forwards st r" "validationResult lib (req_body r) = []"
    "sendMail (visitor_mail e (sanitize lib (req_body r))) = Inr i"
  then show "\<exists>m1 m2. out_sent (secure_app lib e sendMail st r) = [m1, m2]
           \<and> mail_to m1 = JStr (normalizeEmail lib (field_text (f_email (req_body r))))
           \<and> mail_to m2 = env_val e ''RECEIVER_EMAIL''
           \<and> mail_replyTo m2 = Some (normalizeEmail lib (field_text (f_email (req_body r))))"
    by (simp add: secure_app_forwards secure_handler_sent visitor_mail_def company_mail_def
          sanitize_def)
next
  assume a: "server_forwards st' r'" "validateBooking (req_body r') = Next"
    "\<forall>v \<in> set (interpolated (req_body r')). \<not> isl (js_to_string v)"
  then have "\<not> isl (admin_mail e' (req_body r'))"
    by (simp add: admin_mail_isl)
  then obtain m where m: "admin_mail e' (req_body r') = Inr m"
    by (cases "admin_mail e' (req_body r')") auto
  with a have "out_sent (server_app e' send st' r') = [m]"
    by (simp add: server_app_forwards booking_route_valid booking_handler_sent)
  with admin_mail_built [OF m]
  show "\<exists>m. out_sent (server_app e' send st' r') = [m]
           \<and> mail_to m = JArr [env_val e' ''ADMIN_EMAIL'']
           \<and> mail_replyTo m = None"
    by simp
next
  assume a: "server_forwards st' r'" "validateBooking (req_body r') = Next"
    "\<exists>v \<in> set (interpolated (req_body r')). isl (js_to_string v)"
  then have "isl (admin_mail e' (req_body r'))"
    by (simp add: admin_mail_isl)
  with a show "out_sent (server_app e' send st' r') = []"
    and "reply_status (out_reply (server_app e' send st' r')) = 500"
    by (simp_all add: server_app_forwards booking_route_valid booking_handler_thrown)
qed

theorem dispatch_calls_witness:
  "validationResult has_at jane_form = []
   \<and> accepting (visitor_mail configured (sanitize has_at jane_form)) = Inr (JObj [(''id'', JStr ''msg-1'')])
   \<and> map mail_to (out_sent (secure_app has_at configured accepting Map.empty
         (from_client ''203.0.113.7'' 0 jane_form)))
       = [JStr ''jane@x.com'', JStr ''value-of-RECEIVER_EMAIL'']
   \<and> mail_replyTo (last (out_sent (secure_app has_at configured accepting Map.empty
         (from_client ''203.0.113.7'' 0 jane_form)))) = Some ''jane@x.com''
   \<and> validateBooking jane = Next
   \<and> map mail_to (out_sent (server_app configured accepting Map.empty
         (from_client ''203.0.113.7'' 0 jane)))
       = [JArr [JStr ''value-of-ADMIN_EMAIL'']]
   \<and> map mail_replyTo (out_sent (server_app configured accepting Map.empty
         (from_client ''203.0.113.7'' 0 jane))) = [None]
   \<and> validateBooking (jane \<lparr> fullName := JObj [(''toString'', JNum 1)] \<rparr>) = Next
   \<and> js_to_string (JObj [(''toString'', JNum 1)]) = Inl TypeError
   \<and> out_sent (server_app configured accepting Map.empty
         (from_client ''203.0.113.7'' 0 (jane \<lparr> fullName := JObj [(''toString'', JNum 1)] \<rparr>))) = []
   \<and> reply_status (out_reply (server_app configured accepting Map.empty
         (from_client ''203.0.113.7'' 0 (jane \<lparr> fullName := JObj [(''toString'', JNum 1)] \<rparr>)))) = 500"
proof -
  have e: "env_val configured ''RECEIVER_EMAIL'' = JStr ''value-of-RECEIVER_EMAIL''"
    "env_val configured ''ADMIN_EMAIL'' = JStr ''value-of-ADMIN_EMAIL''"
    by (simp_all add: env_val_def configured_def)
  have n: "normalizeEmail has_at (field_text (f_email jane_form)) = ''jane@x.com''"
    by (simp add: has_at_def jane_form_def field_text_def)
  have p: "\<forall>v \<in> set (interpolated jane). \<not> isl (js_to_string v)"
    by (simp add: interpolated_def jane_def js_or_def)
  have v: "validateBooking (jane \<lparr> fullName := JObj [(''toString'', JNum 1)] \<rparr>) = Next"
    by (simp add: validateBooking_def jane_def)
  have t: "\<exists>v \<in> set (interpolated (jane \<lparr> fullName := JObj [(''toString'', JNum 1)] \<rparr>)).
      isl (js_to_string v)"
    by (simp add: interpolated_def)
  show ?thesis
    using dispatch_calls [of Map.empty "from_client ''203.0.113.7'' 0 jane_form" has_at accepting
        configured "JObj [(''id'', JStr ''msg-1'')]" Map.empty "from_client ''203.0.113.7'' 0 jane"
        configured accepting]
      dispatch_calls [of Map.empty "from_client ''203.0.113.7'' 0 jane_form" has_at accepting
        configured "JObj [(''id'', JStr ''msg-1'')]" Map.empty
        "from_client ''203.0.113.7'' 0 (jane \<lparr> fullName := JObj [(''toString'', JNum 1)] \<rparr>)"
        configured accepting]
    by (auto simp: secure_forwards_fresh server_forwards_fresh jane_valid jane_form_valid
          accepting_def e n p v t)
qed

text \<open>
  C1 as stated fails in the Resend variant: the example booking is valid and is answered
  200 after a single dispatch call.
\<close>

theorem single_dispatch_counterexample:
  "validateBooking jane = Next
   \<and> out_reply (server_app configured accepting Map.empty (from_client ''203.0.113.7'' 0 jane))
       = Json 200 (JObj [(''message'', JStr ''Booking submitted successfully''),
                         (''id'', JStr ''msg-1''), (''status'', JStr ''confirmed'')])
   \<and> length (out_sent (server_app configured accepting Map.empty (from_client ''203.0.113.7'' 0 jane))) = 1"
  using server_app_jane [OF server_forwards_fresh [of "''203.0.113.7''" 0 jane],
      where e = configured]
  by (simp add: jane_valid jane_built)

subsection \<open>C2\<close>

text \<open>
  C2 (amended). In the nodemailer variant (fields absent or strings) every body sent is \<open>visitorEmail\<close> or
  \<open>companyEmail\<close> of the sanitized body, in which fullName, phone, organization,
  serviceType, preferredDate, preferredTime and notes have passed \<open>escape\<close>: they hold none
  of \<open><\<close>, \<open>>\<close>, \<open>"\<close>, \<open>'\<close>, and \<open>&\<close> only at the start of a character reference that
  \<open>escape\<close> writes. So the markup characters of the visitor body do not depend on the
  payload, and those of the company body depend on it only through the email address. In
  the Resend variant the body sent is \<open>admin_html\<close> of the body as submitted, and the text
  of every interpolated value stands in it unchanged.
\<close>

theorem interpolated_fields:
  "(\<forall>m \<in> set (out_sent (secure_app lib e sendMail st r)).
       mail_html m = visitorEmail (sanitize lib (req_body r))
       \<or> mail_html m = companyEmail (sanitize lib (req_body r)))
   \<and> escaped (s_fullName (sanitize lib p)) \<and> escaped (s_phone (sanitize lib p))
   \<and> escaped (s_organization (sanitize lib p)) \<and> escaped (s_serviceType (sanitize lib p))
   \<and> escaped (s_preferredDate (sanitize lib p)) \<and> escaped (s_preferredTime (sanitize lib p))
   \<and> escaped (s_notes (sanitize lib p))
   \<and> filter is_markup (visitorEmail (sanitize lib p))
       = filter is_markup (visitorEmail (sanitize lib q))
   \<and> (s_email (sanitize lib p) = s_email (sanitize lib q)
      \<longrightarrow> filter is_markup (companyEmail (sanitize lib p))
          = filter is_markup (companyEmail (sanitize lib q)))
   \<and> (\<forall>m \<in> set (out_sent (server_app e' send st' r')).
         admin_html (req_body r') = Inr (mail_html m))
   \<and> (admin_html b = Inr h
      \<longrightarrow> (\<forall>v \<in> set (interpolated b). \<exists>s. js_to_string v = Inr s \<and> sublist s h))"
proof (intro conjI ballI impI)
  fix m assume "m \<in> set (out_sent (secure_app lib e sendMail st r))"
  then have "m \<in> set (snd (secure_booking_handler lib e sendMail (req_body r)))"
    using express_app_sent unfolding secure_app_def by blast
  then show "mail_html m = visitorEmail (sanitize lib (req_body r))
       \<or> mail_html m = companyEmail (sanitize lib (req_body r))"
    by (rule secure_handler_bodies)
next
  fix m assume "m \<in> set (out_sent (server_app e' send st' r'))"
  then have "m \<in> set (snd (booking_route e' send (req_body r')))"
    using express_app_sent unfolding server_app_def by blast
  then show "admin_html (req_body r') = Inr (mail_html m)"
    by (rule booking_route_bodies)
next
  show "filter is_markup (visitorEmail (sanitize lib p))
       = filter is_markup (visitorEmail (sanitize lib q))"
    by (rule visitor_markup)
next
  assume "s_email (sanitize lib p) = s_email (sanitize lib q)"
  then show "filter is_markup (companyEmail (sanitize lib p))
          = filter is_markup (companyEmail (sanitize lib q))"
    by (rule company_markup)
next
  fix v assume "admin_html b = Inr h" "v \<in> set (interpolated b)"
  then show "\<exists>s. js_to_string v = Inr s \<and> sublist s h"
    by (rule admin_html_sublist)
qed (simp_all add: sanitize_def escaped_escape)

theorem interpolated_fields_witness:
  "s_fullName (sanitize has_at (jane_form \<lparr> f_fullName := Some ''<script>alert(1)</script>'' \<rparr>))
     = ''&lt;script&gt;alert(1)&lt;&#x2F;script&gt;''
   \<and> escaped ''&lt;script&gt;alert(1)&lt;&#x2F;script&gt;''
   \<and> filter is_markup
         (visitorEmail (sanitize has_at (jane_form \<lparr> f_fullName := Some ''<script>alert(1)</script>'' \<rparr>)))
       = filter is_markup (visitorEmail (sanitize has_at jane_form))
   \<and> filter is_markup
         (companyEmail (sanitize has_at (jane_form \<lparr> f_fullName := Some ''<script>alert(1)</script>'' \<rparr>)))
       = filter is_markup (companyEmail (sanitize has_at jane_form))
   \<and> map mail_html (out_sent (secure_app has_at configured accepting Map.empty
         (from_client ''203.0.113.7'' 0 jane_form)))
       = [visitorEmail (sanitize has_at jane_form), companyEmail (sanitize has_at jane_form)]
   \<and> [admin_html jane] = map (\<lambda>m. Inr (mail_html m)) (out_sent (server_app configured accepting
         Map.empty (from_client ''203.0.113.7'' 0 jane)))
   \<and> sublist ''Jane Doe'' (mail_html (hd (out_sent (server_app configured accepting
         Map.empty (from_client ''203.0.113.7'' 0 jane)))))"
proof -
  have n: "s_fullName (sanitize has_at (jane_form \<lparr> f_fullName := Some ''<script>alert(1)</script>'' \<rparr>))
     = ''&lt;script&gt;alert(1)&lt;&#x2F;script&gt;''"
    by code_simp
  have m: "s_email (sanitize has_at (jane_form \<lparr> f_fullName := Some ''<script>alert(1)</script>'' \<rparr>))
     = s_email (sanitize has_at jane_form)"
    by (simp add: sanitize_def)
  have s1: "out_sent (secure_app has_at configured accepting Map.empty
        (from_client ''203.0.113.7'' 0 jane_form))
     = [visitor_mail configured (sanitize has_at jane_form),
        company_mail configured (sanitize has_at jane_form)]"
    by (simp add: secure_app_forwards [OF secure_forwards_fresh] secure_handler_sent
          jane_form_valid accepting_def)
  obtain a where a: "admin_mail configured jane = Inr a"
    using jane_built [of configured] by (cases "admin_mail configured jane") auto
  have s2: "out_sent (server_app configured accepting Map.empty (from_client ''203.0.113.7'' 0 jane))
     = [a]"
    by (simp add: server_app_forwards [OF server_forwards_fresh] booking_route_valid jane_valid
          booking_handler_sent a)
  have j: "fullName jane \<in> set (interpolated jane)" "js_to_string (fullName jane) = Inr ''Jane Doe''"
    by (simp_all add: interpolated_def jane_def)
  show ?thesis
    using n m j admin_mail_built(3) [OF a]
      interpolated_fields [of has_at configured accepting Map.empty
        "from_client ''203.0.113.7'' 0 jane_form"
        "jane_form \<lparr> f_fullName := Some ''<script>alert(1)</script>'' \<rparr>" jane_form
        configured accepting Map.empty "from_client ''203.0.113.7'' 0 jane" jane "mail_html a"]
    by (simp add: s1 s2) (auto simp: visitor_mail_def company_mail_def)
qed

text \<open>
  C2 as stated fails in the Resend variant: a fullName holding a script tag stands in the
  body of the message sent, unescaped.
\<close>

theorem script_tag_counterexample:
  "sublist ''<script>alert(1)</script>''
     (mail_html (hd (out_sent (server_app configured accepting Map.empty
        (from_client ''203.0.113.7'' 0 (jane \<lparr> fullName := JStr ''<script>alert(1)</script>'' \<rparr>))))))"
proof -
  let ?b = "jane \<lparr> fullName := JStr ''<script>alert(1)</script>'' \<rparr>"
  have v: "validateBooking ?b = Next"
    by (simp add: validateBooking_def jane_def)
  obtain a where a: "admin_mail configured ?b = Inr a"
    using jane_text_built [of configured "''<script>alert(1)</script>''"]
    by (cases "admin_mail configured ?b") auto
  have "fullName ?b \<in> set (interpolated ?b)"
    by (simp add: interpolated_def)
  with admin_html_sublist [OF admin_mail_built(3) [OF a]]
  have "sublist ''<script>alert(1)</script>'' (mail_html a)"
    by fastforce
  then show ?thesis
    by (simp add: server_app_forwards [OF server_forwards_fresh] v booking_route_valid
          booking_handler_sent a)
qed

subsection \<open>C3\<close>

text \<open>
  C3 (amended). Of a request that the gatekeeper forwards: in the nodemailer variant (fields
  absent or strings), if any
  of fullName, serviceType, preferredDate, preferredTime is absent or empty after trimming,
  or the email (the empty string when absent) fails \<open>isEmail\<close>, the reply is 400 and nothing
  is dispatched; in the Resend variant, if any of the five required fields is absent or
  falsy (the empty string, \<open>null\<close>, \<open>0\<close>, \<open>false\<close>), the reply is 400 and nothing is
  dispatched.
\<close>

theorem missing_field_rejected:
  "(secure_forwards st r
      \<and> (trim (field_text (f_fullName (req_body r))) = []
           \<or> \<not> isEmail lib (field_text (f_email (req_body r)))
           \<or> trim (field_text (f_serviceType (req_body r))) = []
           \<or> trim (field_text (f_preferredDate (req_body r))) = []
           \<or> trim (field_text (f_preferredTime (req_body r))) = [])
    \<longrightarrow> reply_status (out_reply (secure_app lib e sendMail st r)) = 400
        \<and> out_sent (secure_app lib e sendMail st r) = [])
   \<and> (server_forwards st' r'
      \<and> (\<not> truthy (fullName (req_body r')) \<or> \<not> truthy (email (req_body r'))
           \<or> \<not> truthy (serviceType (req_body r')) \<or> \<not> truthy (preferredDate (req_body r'))
           \<or> \<not> truthy (preferredTime (req_body r')))
    \<longrightarrow> reply_status (out_reply (server_app e' send st' r')) = 400
        \<and> out_sent (server_app e' send st' r') = [])"
proof (intro conjI impI)
  assume a: "secure_forwards st r
      \<and> (trim (field_text (f_fullName (req_body r))) = []
           \<or> \<not> isEmail lib (field_text (f_email (req_body r)))
           \<or> trim (field_text (f_serviceType (req_body r))) = []
           \<or> trim (field_text (f_preferredDate (req_body r))) = []
           \<or> trim (field_text (f_preferredTime (req_body r))) = [])"
  then have "validationResult lib (req_body r) \<noteq> []"
    by (auto simp: validationResult_empty_iff)
  with a show "reply_status (out_reply (secure_app lib e sendMail st r)) = 400"
    and "out_sent (secure_app lib e sendMail st r) = []"
    by (simp_all add: secure_app_forwards secure_handler_invalid)
next
  assume a: "server_forwards st' r'
      \<and> (\<not> truthy (fullName (req_body r')) \<or> \<not> truthy (email (req_body r'))
           \<or> \<not> truthy (serviceType (req_body r')) \<or> \<not> truthy (preferredDate (req_body r'))
           \<or> \<not> truthy (preferredTime (req_body r')))"
  then have "validateBooking (req_body r')
      = Respond (Json 400 (JObj [(''error'', JStr ''Missing required fields'')]))"
    by (intro validateBooking_falsy) simp
  with a show "reply_status (out_reply (server_app e' send st' r')) = 400"
    and "out_sent (server_app e' send st' r') = []"
    by (simp_all add: server_app_forwards booking_route_def)
qed

theorem missing_field_rejected_witness:
  "trim (field_text (f_fullName (jane_form \<lparr> f_fullName := Some ''  '' \<rparr>))) = []
   \<and> reply_status (out_reply (secure_app has_at configured accepting Map.empty
         (from_client ''203.0.113.7'' 0 (jane_form \<lparr> f_fullName := Some ''  '' \<rparr>)))) = 400
   \<and> out_sent (secure_app has_at configured accepting Map.empty
         (from_client ''203.0.113.7'' 0 (jane_form \<lparr> f_fullName := Some ''  '' \<rparr>))) = []
   \<and> trim (field_text (f_preferredTime (jane_form \<lparr> f_preferredTime := None \<rparr>))) = []
   \<and> reply_status (out_reply (secure_app has_at configured accepting Map.empty
         (from_client ''203.0.113.7'' 0 (jane_form \<lparr> f_preferredTime := None \<rparr>)))) = 400
   \<and> out_sent (secure_app has_at configured accepting Map.empty
         (from_client ''203.0.113.7'' 0 (jane_form \<lparr> f_preferredTime := None \<rparr>))) = []
   \<and> \<not> truthy (serviceType (jane \<lparr> serviceType := JStr [] \<rparr>))
   \<and> reply_status (out_reply (server_app configured accepting Map.empty
         (from_client ''203.0.113.7'' 0 (jane \<lparr> serviceType := JStr [] \<rparr>)))) = 400
   \<and> out_sent (server_app configured accepting Map.empty
         (from_client ''203.0.113.7'' 0 (jane \<lparr> serviceType := JStr [] \<rparr>))) = []
   \<and> \<not> truthy (email (jane \<lparr> email := JUndefined \<rparr>))
   \<and> reply_status (out_reply (server_app configured accepting Map.empty
         (from_client ''203.0.113.7'' 0 (jane \<lparr> email := JUndefined \<rparr>)))) = 400
   \<and> out_sent (server_app configured accepting Map.empty
         (from_client ''203.0.113.7'' 0 (jane \<lparr> email := JUndefined \<rparr>))) = []"
proof -
  have t: "trim (field_text (f_fullName (jane_form \<lparr> f_fullName := Some ''  '' \<rparr>))) = []"
    "trim (field_text (f_preferredTime (jane_form \<lparr> f_preferredTime := None \<rparr>))) = []"
    by code_simp+
  show ?thesis
    using t
      missing_field_rejected [of Map.empty
        "from_client ''203.0.113.7'' 0 (jane_form \<lparr> f_fullName := Some ''  '' \<rparr>)" has_at
        configured accepting Map.empty
        "from_client ''203.0.113.7'' 0 (jane \<lparr> serviceType := JStr [] \<rparr>)" configured accepting]
      missing_field_rejected [of Map.empty
        "from_client ''203.0.113.7'' 0 (jane_form \<lparr> f_preferredTime := None \<rparr>)" has_at
        configured accepting Map.empty
        "from_client ''203.0.113.7'' 0 (jane \<lparr> email := JUndefined \<rparr>)" configured accepting]
    by (simp add: secure_forwards_fresh server_forwards_fresh)
qed

text \<open>
  C3 as stated fails in the Resend variant, which does not trim: a fullName of three
  spaces is empty after trimming, yet the booking is answered 200 and dispatched.
\<close>

theorem blank_name_counterexample:
  "trim ''   '' = []
   \<and> reply_status (out_reply (server_app configured accepting Map.empty
         (from_client ''203.0.113.7'' 0 (jane \<lparr> fullName := JStr ''   '' \<rparr>)))) = 200
   \<and> length (out_sent (server_app configured accepting Map.empty
         (from_client ''203.0.113.7'' 0 (jane \<lparr> fullName := JStr ''   '' \<rparr>)))) = 1"
proof -
  have t: "trim ''   '' = []" by code_simp
  have v: "validateBooking (jane \<lparr> fullName := JStr ''   '' \<rparr>) = Next"
    by (simp add: validateBooking_def jane_def)
  show ?thesis
    using server_app_jane [OF server_forwards_fresh
        [of "''203.0.113.7''" 0 "jane \<lparr> fullName := JStr ''   '' \<rparr>"], where e = configured]
    by (simp add: t v jane_text_built)
qed

subsection \<open>C4\<close>

text \<open>
  C4 (amended). For every client identity and every state of the rate store: given six
  sequential booking requests from that identity, each within the parser's size limit, the
  last five arriving before the end of the window in force at the first, the sixth is
  answered 429 and nothing is dispatched for it; and a request from a different identity
  is answered, and dispatched, after the six exactly as it would have been before them.
  This holds in both variants (window 15 minutes, ceiling 5). A request over the size limit
  is refused by the parser before the limiter runs and is not counted.
\<close>

theorem sixth_request_refused:
  "((\<forall>r \<in> set [r1, r2, r3, r4, r5, r6]. req_ip r = ip \<and> req_bytes r \<le> kb 10)
     \<and> (\<forall>r \<in> set [r2, r3, r4, r5, r6].
           req_time r < reset_at (current_window (15 * 60 * 1000) st ip (req_time r1)))
    \<longrightarrow> reply_status (out_reply (last (serve (secure_app lib e sendMail) st
                                         [r1, r2, r3, r4, r5, r6]))) = 429
        \<and> out_sent (last (serve (secure_app lib e sendMail) st [r1, r2, r3, r4, r5, r6])) = []
        \<and> (req_ip r' \<noteq> ip \<longrightarrow>
             out_reply (secure_app lib e sendMail
                 (out_store (last (serve (secure_app lib e sendMail) st [r1, r2, r3, r4, r5, r6]))) r')
               = out_reply (secure_app lib e sendMail st r')
             \<and> out_sent (secure_app lib e sendMail
                 (out_store (last (serve (secure_app lib e sendMail) st [r1, r2, r3, r4, r5, r6]))) r')
               = out_sent (secure_app lib e sendMail st r')))
   \<and> ((\<forall>r \<in> set [q1, q2, q3, q4, q5, q6]. req_ip r = ip' \<and> req_bytes r \<le> default_json_limit)
     \<and> (\<forall>r \<in> set [q2, q3, q4, q5, q6].
           req_time r < reset_at (current_window (15 * 60 * 1000) st' ip' (req_time q1)))
    \<longrightarrow> reply_status (out_reply (last (serve (server_app e' send) st'
                                         [q1, q2, q3, q4, q5, q6]))) = 429
        \<and> out_sent (last (serve (server_app e' send) st' [q1, q2, q3, q4, q5, q6])) = []
        \<and> (req_ip q' \<noteq> ip' \<longrightarrow>
             out_reply (server_app e' send
                 (out_store (last (serve (server_app e' send) st' [q1, q2, q3, q4, q5, q6]))) q')
               = out_reply (server_app e' send st' q')
             \<and> out_sent (server_app e' send
                 (out_store (last (serve (server_app e' send) st' [q1, q2, q3, q4, q5, q6]))) q')
               = out_sent (server_app e' send st' q')))"
proof (intro conjI impI; (elim conjE)?)
  assume a: "\<forall>r \<in> set [r1, r2, r3, r4, r5, r6]. req_ip r = ip \<and> req_bytes r \<le> kb 10"
    "\<forall>r \<in> set [r2, r3, r4, r5, r6].
           req_time r < reset_at (current_window (15 * 60 * 1000) st ip (req_time r1))"
  note s = six_requests_limited [OF a, where opts = secure_cors
      and msg = "JObj [(''error'',
          JStr ''Too many booking requests from this IP, please try again after 15 minutes.'')]"
      and route = "secure_booking_handler lib e sendMail",
      folded bookingLimiter_def secure_app_def]
  show "reply_status (out_reply (last (serve (secure_app lib e sendMail) st
                                         [r1, r2, r3, r4, r5, r6]))) = 429"
    by (simp only: s(1) reply_status.simps)
  show "out_sent (last (serve (secure_app lib e sendMail) st [r1, r2, r3, r4, r5, r6])) = []"
    by (rule s(2))
  assume "req_ip r' \<noteq> ip"
  from s(3) [OF this]
  show "out_reply (secure_app lib e sendMail
                 (out_store (last (serve (secure_app lib e sendMail) st [r1, r2, r3, r4, r5, r6]))) r')
               = out_reply (secure_app lib e sendMail st r')"
    and "out_sent (secure_app lib e sendMail
                 (out_store (last (serve (secure_app lib e sendMail) st [r1, r2, r3, r4, r5, r6]))) r')
               = out_sent (secure_app lib e sendMail st r')"
    by simp_all
next
  assume a: "\<forall>r \<in> set [q1, q2, q3, q4, q5, q6]. req_ip r = ip' \<and> req_bytes r \<le> default_json_limit"
    "\<forall>r \<in> set [q2, q3, q4, q5, q6].
           req_time r < reset_at (current_window (15 * 60 * 1000) st' ip' (req_time q1))"
  note s = six_requests_limited [OF a, where opts = cors_defaults
      and msg = "JObj [(''error'', JStr ''Too many booking requests. Please try again later.''),
              (''retryAfter'', JStr ''15 minutes'')]"
      and route = "booking_route e' send", folded limiter_def server_app_def]
  show "reply_status (out_reply (last (serve (server_app e' send) st'
                                         [q1, q2, q3, q4, q5, q6]))) = 429"
    by (simp only: s(1) reply_status.simps)
  show "out_sent (last (serve (server_app e' send) st' [q1, q2, q3, q4, q5, q6])) = []"
    by (rule s(2))
  assume "req_ip q' \<noteq> ip'"
  from s(3) [OF this]
  show "out_reply (server_app e' send
                 (out_store (last (serve (server_app e' send) st' [q1, q2, q3, q4, q5, q6]))) q')
               = out_reply (server_app e' send st' q')"
    and "out_sent (server_app e' send
                 (out_store (last (serve (server_app e' send) st' [q1, q2, q3, q4, q5, q6]))) q')
               = out_sent (server_app e' send st' q')"
    by simp_all
qed

theorem sixth_request_refused_witness:
  "reply_status (out_reply (last (serve (secure_app has_at configured accepting) Map.empty
      [from_client ''203.0.113.7'' 0 jane_form, from_client ''203.0.113.7'' 1000 jane_form,
       from_client ''203.0.113.7'' 2000 jane_form, from_client ''203.0.113.7'' 3000 jane_form,
       from_client ''203.0.113.7'' 4000 jane_form, from_client ''203.0.113.7'' 899999 jane_form]))) = 429
   \<and> reply_status (out_reply (secure_app has_at configured accepting
        (out_store (last (serve (secure_app has_at configured accepting) Map.empty
      [from_client ''203.0.113.7'' 0 jane_form, from_client ''203.0.113.7'' 1000 jane_form,
       from_client ''203.0.113.7'' 2000 jane_form, from_client ''203.0.113.7'' 3000 jane_form,
       from_client ''203.0.113.7'' 4000 jane_form, from_client ''203.0.113.7'' 899999 jane_form])))
        (from_client ''198.51.100.2'' 5000 jane_form))) = 200
   \<and> reply_status (out_reply (last (serve (server_app configured accepting) Map.empty
      [from_client ''203.0.113.7'' 0 jane, from_client ''203.0.113.7'' 1000 jane,
       from_client ''203.0.113.7'' 2000 jane, from_client ''203.0.113.7'' 3000 jane,
       from_client ''203.0.113.7'' 4000 jane, from_client ''203.0.113.7'' 899999 jane]))) = 429
   \<and> reply_status (out_reply (server_app configured accepting
        (out_store (last (serve (server_app configured accepting) Map.empty
      [from_client ''203.0.113.7'' 0 jane, from_client ''203.0.113.7'' 1000 jane,
       from_client ''203.0.113.7'' 2000 jane, from_client ''203.0.113.7'' 3000 jane,
       from_client ''203.0.113.7'' 4000 jane, from_client ''203.0.113.7'' 899999 jane])))
        (from_client ''198.51.100.2'' 5000 jane))) = 200"
proof -
  have a: "reply_status (out_reply (secure_app has_at configured accepting Map.empty
      (from_client ''198.51.100.2'' 5000 jane_form))) = 200"
    by (simp add: secure_app_forwards [OF secure_forwards_fresh] secure_handler_accepted
          jane_form_valid)
  have b: "reply_status (out_reply (server_app configured accepting Map.empty
      (from_client ''198.51.100.2'' 5000 jane))) = 200"
    using server_app_jane(1) [OF server_forwards_fresh [of "''198.51.100.2''" 5000 jane],
        where e = configured]
    by (simp add: jane_valid jane_built)
  have c: "req_ip (from_client ''198.51.100.2'' 5000 jane_form) \<noteq> ''203.0.113.7''"
    "req_ip (from_client ''198.51.100.2'' 5000 jane) \<noteq> ''203.0.113.7''"
    by (simp_all add: from_client_def)
  have d: "\<forall>r \<in> set [from_client ''203.0.113.7'' 0 jane_form, from_client ''203.0.113.7'' 1000 jane_form,
       from_client ''203.0.113.7'' 2000 jane_form, from_client ''203.0.113.7'' 3000 jane_form,
       from_client ''203.0.113.7'' 4000 jane_form, from_client ''203.0.113.7'' 899999 jane_form].
       req_ip r = ''203.0.113.7'' \<and> req_bytes r \<le> kb 10"
    "\<forall>r \<in> set [from_client ''203.0.113.7'' 1000 jane_form,
       from_client ''203.0.113.7'' 2000 jane_form, from_client ''203.0.113.7'' 3000 jane_form,
       from_client ''203.0.113.7'' 4000 jane_form, from_client ''203.0.113.7'' 899999 jane_form].
       req_time r < reset_at (current_window (15 * 60 * 1000) Map.empty ''203.0.113.7''
          (req_time (from_client ''203.0.113.7'' 0 jane_form)))"
    "\<forall>r \<in> set [from_client ''203.0.113.7'' 0 jane, from_client ''203.0.113.7'' 1000 jane,
       from_client ''203.0.113.7'' 2000 jane, from_client ''203.0.113.7'' 3000 jane,
       from_client ''203.0.113.7'' 4000 jane, from_client ''203.0.113.7'' 899999 jane].
       req_ip r = ''203.0.113.7'' \<and> req_bytes r \<le> default_json_limit"
    "\<forall>r \<in> set [from_client ''203.0.113.7'' 1000 jane,
       from_client ''203.0.113.7'' 2000 jane, from_client ''203.0.113.7'' 3000 jane,
       from_client ''203.0.113.7'' 4000 jane, from_client ''203.0.113.7'' 899999 jane].
       req_time r < reset_at (current_window (15 * 60 * 1000) Map.empty ''203.0.113.7''
          (req_time (from_client ''203.0.113.7'' 0 jane)))"
    by (simp_all add: from_client_def kb_def default_json_limit_def current_window_def)
  show ?thesis
    using sixth_request_refused [of
      "from_client ''203.0.113.7'' 0 jane_form" "from_client ''203.0.113.7'' 1000 jane_form"
      "from_client ''203.0.113.7'' 2000 jane_form" "from_client ''203.0.113.7'' 3000 jane_form"
      "from_client ''203.0.113.7'' 4000 jane_form" "from_client ''203.0.113.7'' 899999 jane_form"
      "''203.0.113.7''" Map.empty has_at configured accepting "from_client ''198.51.100.2'' 5000 jane_form"
      "from_client ''203.0.113.7'' 0 jane" "from_client ''203.0.113.7'' 1000 jane"
      "from_client ''203.0.113.7'' 2000 jane" "from_client ''203.0.113.7'' 3000 jane"
      "from_client ''203.0.113.7'' 4000 jane" "from_client ''203.0.113.7'' 899999 jane"
      "''203.0.113.7''" Map.empty configured accepting "from_client ''198.51.100.2'' 5000 jane"]
      a b c d
    by simp
qed

text \<open>
  C4 as stated fails when requests of the six are over the parser's size limit: in the
  nodemailer variant, after five requests of 20000 bytes from one client, answered 413
  and not counted, the sixth request of that client in the same window is a valid booking
  and is answered 200 with both messages dispatched.
\<close>

theorem oversize_requests_counterexample:
  "map (\<lambda>out. reply_status (out_reply out))
     (serve (secure_app has_at configured accepting) Map.empty
        [from_client ''203.0.113.7'' 0 jane_form \<lparr> req_bytes := 20000 \<rparr>,
         from_client ''203.0.113.7'' 1000 jane_form \<lparr> req_bytes := 20000 \<rparr>,
         from_client ''203.0.113.7'' 2000 jane_form \<lparr> req_bytes := 20000 \<rparr>,
         from_client ''203.0.113.7'' 3000 jane_form \<lparr> req_bytes := 20000 \<rparr>,
         from_client ''203.0.113.7'' 4000 jane_form \<lparr> req_bytes := 20000 \<rparr>,
         from_client ''203.0.113.7'' 5000 jane_form])
     = [413, 413, 413, 413, 413, 200]
   \<and> length (out_sent (last (serve (secure_app has_at configured accepting) Map.empty
        [from_client ''203.0.113.7'' 0 jane_form \<lparr> req_bytes := 20000 \<rparr>,
         from_client ''203.0.113.7'' 1000 jane_form \<lparr> req_bytes := 20000 \<rparr>,
         from_client ''203.0.113.7'' 2000 jane_form \<lparr> req_bytes := 20000 \<rparr>,
         from_client ''203.0.113.7'' 3000 jane_form \<lparr> req_bytes := 20000 \<rparr>,
         from_client ''203.0.113.7'' 4000 jane_form \<lparr> req_bytes := 20000 \<rparr>,
         from_client ''203.0.113.7'' 5000 jane_form]))) = 2"
proof -
  have big: "secure_app has_at configured accepting st
        (from_client ''203.0.113.7'' t jane_form \<lparr> req_bytes := 20000 \<rparr>)
      = \<lparr> out_reply = ExpressError PayloadTooLargeError, out_allow_origin = None,
          out_sent = [], out_store = st \<rparr>" for st t
    unfolding secure_app_def
    by (subst express_app_oversize)
       (simp_all add: kb_def from_client_def allow_origin_def secure_cors_def)
  have ok: "reply_status (out_reply (secure_app has_at configured accepting Map.empty
        (from_client ''203.0.113.7'' 5000 jane_form))) = 200"
    "length (out_sent (secure_app has_at configured accepting Map.empty
        (from_client ''203.0.113.7'' 5000 jane_form))) = 2"
    by (simp_all add: secure_app_forwards [OF secure_forwards_fresh] secure_handler_accepted
          secure_handler_sent jane_form_valid accepting_def)
  show ?thesis
    by (simp add: big ok Let_def)
qed

subsection \<open>C5\<close>

text \<open>
  C5. The claim asks for 500 whenever the collaborator returns an error. The Resend variant
  answers 500 only when the awaited send rejects; it never reads the value the send
  resolves to. When the Resend client resolves to an object that carries an error, as it
  does when the provider refuses the message, the valid booking of the example is answered
  200 with the message \<open>Booking submitted successfully\<close> and the status \<open>confirmed\<close>.
\<close>

theorem refused_send_reported_as_success:
  "validateBooking jane = Next
   \<and> out_reply (server_app configured refused Map.empty (from_client ''203.0.113.7'' 0 jane))
       = Json 200 (JObj [(''message'', JStr ''Booking submitted successfully''),
                         (''status'', JStr ''confirmed'')])
   \<and> map refused (out_sent (server_app configured refused Map.empty
         (from_client ''203.0.113.7'' 0 jane)))
       = [Inr (JObj [(''data'', JNull),
                     (''error'', JObj [(''statusCode'', JNum 422), (''name'', JStr ''validation_error''),
                                       (''message'', JStr ''Invalid `from` field.'')])])]"
proof -
  obtain a where a: "admin_mail configured jane = Inr a"
    using jane_built [of configured] by (cases "admin_mail configured jane") auto
  show ?thesis
    by (simp add: server_app_forwards [OF server_forwards_fresh] booking_route_valid jane_valid
          booking_handler_def a refused_def res_json_def)
qed

theorem refused_send_reported_as_success_witness:
  "reply_status (out_reply (server_app configured refused Map.empty
      (from_client ''203.0.113.7'' 0 jane))) = 200
   \<and> length (out_sent (server_app configured refused Map.empty
      (from_client ''203.0.113.7'' 0 jane))) = 1"
proof -
  note t = refused_send_reported_as_success
  from t have m: "map refused (out_sent (server_app configured refused Map.empty
      (from_client ''203.0.113.7'' 0 jane)))
       = [Inr (JObj [(''data'', JNull),
                     (''error'', JObj [(''statusCode'', JNum 422), (''name'', JStr ''validation_error''),
                                       (''message'', JStr ''Invalid `from` field.'')])])]"
    by (rule conjunct2 [THEN conjunct2])
  have "length (map refused (out_sent (server_app configured refused Map.empty
      (from_client ''203.0.113.7'' 0 jane)))) = 1"
    unfolding m by simp
  then have l: "length (out_sent (server_app configured refused Map.empty
      (from_client ''203.0.113.7'' 0 jane))) = 1"
    by simp
  from t have "reply_status (out_reply (server_app configured refused Map.empty
      (from_client ''203.0.113.7'' 0 jane))) = 200"
    by simp
  with l show ?thesis by simp
qed

subsection \<open>C6\<close>

text \<open>
  C6 (amended). Of a valid booking that the gatekeeper forwards: in the nodemailer variant
  (fields absent or strings) the send to the visitor is always attempted, and the send to
  the company is attempted exactly when the send to the visitor succeeded; in the Resend
  variant the one send, to the administrator, is attempted exactly when every value
  interpolated into the message converts to a string: otherwise the template literal throws
  before the send and nothing is attempted.
\<close>

theorem sends_attempted:
  "(secure_forwards st r \<and> validationResult lib (req_body r) = []
    \<longrightarrow> out_sent (secure_app lib e sendMail st r) =
          (case sendMail (visitor_mail e (sanitize lib (req_body r))) of
             Inl err \<Rightarrow> [visitor_mail e (sanitize lib (req_body r))]
           | Inr i \<Rightarrow> [visitor_mail e (sanitize lib (req_body r)),
                        company_mail e (sanitize lib (req_body r))]))
   \<and> (server_forwards st' r' \<and> validateBooking (req_body r') = Next
      \<and> (\<forall>v \<in> set (interpolated (req_body r')). \<not> isl (js_to_string v))
    \<longrightarrow> map Inr (out_sent (server_app e' send st' r')) = [admin_mail e' (req_body r')])
   \<and> (server_forwards st' r' \<and> validateBooking (req_body r') = Next
      \<and> (\<exists>v \<in> set (interpolated (req_body r')). isl (js_to_string v))
    \<longrightarrow> out_sent (server_app e' send st' r') = [])"
proof (intro conjI impI; (elim conjE)?)
  assume "secure_forwards st r" "validationResult lib (req_body r) = []"
  then show "out_sent (secure_app lib e sendMail st r) =
          (case sendMail (visitor_mail e (sanitize lib (req_body r))) of
             Inl err \<Rightarrow> [visitor_mail e (sanitize lib (req_body r))]
           | Inr i \<Rightarrow> [visitor_mail e (sanitize lib (req_body r)),
                        company_mail e (sanitize lib (req_body r))])"
    by (simp add: secure_app_forwards secure_handler_sent)
next
  assume a: "server_forwards st' r'" "validateBooking (req_body r') = Next"
    "\<forall>v \<in> set (interpolated (req_body r')). \<not> isl (js_to_string v)"
  then have "\<not> isl (admin_mail e' (req_body r'))"
    by (simp add: admin_mail_isl)
  then obtain m where m: "admin_mail e' (req_body r') = Inr m"
    by (cases "admin_mail e' (req_body r')") auto
  with a show "map Inr (out_sent (server_app e' send st' r')) = [admin_mail e' (req_body r')]"
    by (simp add: server_app_forwards booking_route_valid booking_handler_sent)
next
  assume a: "server_forwards st' r'" "validateBooking (req_body r') = Next"
    "\<exists>v \<in> set (interpolated (req_body r')). isl (js_to_string v)"
  then have "isl (admin_mail e' (req_body r'))"
    by (simp add: admin_mail_isl)
  with a show "out_sent (server_app e' send st' r') = []"
    by (simp add: server_app_forwards booking_route_valid booking_handler_thrown)
qed

theorem sends_attempted_witness:
  "out_sent (secure_app has_at configured accepting Map.empty (from_client ''203.0.113.7'' 0 jane_form))
     = [visitor_mail configured (sanitize has_at jane_form),
        company_mail configured (sanitize has_at jane_form)]
   \<and> map Inr (out_sent (server_app configured accepting Map.empty
         (from_client ''203.0.113.7'' 0 jane))) = [admin_mail configured jane]
   \<and> validateBooking (jane \<lparr> notes_field := JArr [JObj [(''toString'', JNull)]] \<rparr>) = Next
   \<and> js_to_string (JArr [JObj [(''toString'', JNull)]]) = Inl TypeError
   \<and> out_sent (server_app configured accepting Map.empty
         (from_client ''203.0.113.7'' 0
            (jane \<lparr> notes_field := JArr [JObj [(''toString'', JNull)]] \<rparr>))) = []"
proof -
  have p: "\<forall>v \<in> set (interpolated jane). \<not> isl (js_to_string v)"
    by (simp add: interpolated_def jane_def js_or_def)
  have v: "validateBooking (jane \<lparr> notes_field := JArr [JObj [(''toString'', JNull)]] \<rparr>) = Next"
    by (simp add: validateBooking_def jane_def)
  have t: "\<exists>v \<in> set (interpolated (jane \<lparr> notes_field := JArr [JObj [(''toString'', JNull)]] \<rparr>)).
      isl (js_to_string v)"
    by (simp add: interpolated_def js_or_def)
  show ?thesis
    using sends_attempted [of Map.empty "from_client ''203.0.113.7'' 0 jane_form" has_at
        configured accepting Map.empty "from_client ''203.0.113.7'' 0 jane" configured accepting]
      sends_attempted [of Map.empty "from_client ''203.0.113.7'' 0 jane_form" has_at
        configured accepting Map.empty
        "from_client ''203.0.113.7'' 0 (jane \<lparr> notes_field := JArr [JObj [(''toString'', JNull)]] \<rparr>)"
        configured accepting]
    by (simp add: secure_forwards_fresh server_forwards_fresh jane_valid jane_form_valid
          accepting_def p v t)
qed

text \<open>
  C6 as stated fails in the nodemailer variant: when the collaborator rejects the first
  message, the message to the company is never handed to it.
\<close>

theorem first_send_fails_counterexample:
  "validationResult has_at jane_form = []
   \<and> out_sent (secure_app has_at configured rejecting Map.empty
        (from_client ''203.0.113.7'' 0 jane_form))
     = [visitor_mail configured (sanitize has_at jane_form)]
   \<and> company_mail configured (sanitize has_at jane_form)
       \<noteq> visitor_mail configured (sanitize has_at jane_form)"
  by (simp add: jane_form_valid secure_app_forwards [OF secure_forwards_fresh] secure_handler_sent
        rejecting_def) (simp add: company_mail_def visitor_mail_def)

subsection \<open>C7\<close>

text \<open>
  C7 (amended). In the Resend variant, if any of \<open>RESEND_API_KEY\<close>, \<open>FROM_EMAIL\<close>,
  \<open>ADMIN_EMAIL\<close> is unset or empty at start-up, the process exits with code 1 and answers
  no request. The nodemailer variant checks no configuration value at start-up: whatever
  the environment and whatever \<open>transporter.verify\<close> reports, it listens and answers every
  request.
\<close>

theorem startup_configuration:
  "((\<exists>k \<in> {''RESEND_API_KEY'', ''FROM_EMAIL'', ''ADMIN_EMAIL''}. e k = None \<or> e k = Some [])
    \<longrightarrow> server e send rs = (Exited 1, []))
   \<and> fst (secure_server lib e' sendMail verify_error rs')
       = Listening (js_or (env_val e' ''PORT'') (JNum 5000))
   \<and> length (snd (secure_server lib e' sendMail verify_error rs')) = length rs'"
  by (auto simp: server_def startup_def env_val_def secure_server_def secure_startup_def
        length_serve)

theorem startup_configuration_witness:
  "unconfigured ''FROM_EMAIL'' = None
   \<and> server unconfigured accepting [from_client ''203.0.113.7'' 0 jane] = (Exited 1, [])
   \<and> length (snd (secure_server has_at unconfigured accepting None
        [from_client ''203.0.113.7'' 0 jane_form])) = 1"
  using startup_configuration [of unconfigured accepting "[from_client ''203.0.113.7'' 0 jane]"
      has_at unconfigured accepting None "[from_client ''203.0.113.7'' 0 jane_form]"]
  by (auto simp: unconfigured_def)

text \<open>
  C7 as stated fails in the nodemailer variant: with no environment variable set and a
  failed transport verification the process listens on port 5000 and answers a booking
  request, with 500 once the collaborator rejects the message.
\<close>

theorem unconfigured_secure_server_counterexample:
  "unconfigured ''EMAIL_USER'' = None \<and> unconfigured ''EMAIL_PASS'' = None
   \<and> unconfigured ''RECEIVER_EMAIL'' = None
   \<and> fst (secure_server has_at unconfigured rejecting (Some ''Missing credentials for PLAIN'')
        [from_client ''203.0.113.7'' 0 jane_form]) = Listening (JNum 5000)
   \<and> map (\<lambda>out. reply_status (out_reply out))
       (snd (secure_server has_at unconfigured rejecting (Some ''Missing credentials for PLAIN'')
          [from_client ''203.0.113.7'' 0 jane_form])) = [500]"
proof -
  have p: "js_or (env_val unconfigured ''PORT'') (JNum 5000) = JNum 5000"
    by (simp add: unconfigured_def env_val_def js_or_def)
  have r: "reply_status (out_reply (secure_app has_at unconfigured rejecting Map.empty
        (from_client ''203.0.113.7'' 0 jane_form))) = 500"
    by (simp add: secure_app_forwards [OF secure_forwards_fresh] secure_booking_handler_def
          jane_form_valid rejecting_def Let_def res_json_def)
  show ?thesis
    by (simp add: secure_server_def secure_startup_def p r Let_def) (simp add: unconfigured_def)
qed

subsection \<open>C8\<close>

text \<open>
  C8 (amended). A request whose body exceeds the parser's limit is refused with status 413
  before the rate limiter and the booking handler run: nothing is dispatched and the rate
  store is unchanged. The limit is 10 kB (10240 bytes) in the nodemailer variant and the
  parser's default of 100 kB (102400 bytes) in the Resend variant.
\<close>

theorem body_size_guard:
  "(kb 10 < req_bytes r
    \<longrightarrow> out_reply (secure_app lib e sendMail st r) = ExpressError PayloadTooLargeError
        \<and> reply_status (out_reply (secure_app lib e sendMail st r)) = 413
        \<and> out_sent (secure_app lib e sendMail st r) = []
        \<and> out_store (secure_app lib e sendMail st r) = st)
   \<and> (kb 100 < req_bytes r'
    \<longrightarrow> out_reply (server_app e' send st' r') = ExpressError PayloadTooLargeError
        \<and> reply_status (out_reply (server_app e' send st' r')) = 413
        \<and> out_sent (server_app e' send st' r') = []
        \<and> out_store (server_app e' send st' r') = st')"
  by (simp add: secure_app_def server_app_def express_app_def express_json_def
        default_json_limit_def Let_def)

theorem body_size_guard_witness:
  "kb 10 < req_bytes (from_client ''203.0.113.7'' 0 jane_form \<lparr> req_bytes := 10241 \<rparr>)
   \<and> reply_status (out_reply (secure_app has_at configured accepting Map.empty
        (from_client ''203.0.113.7'' 0 jane_form \<lparr> req_bytes := 10241 \<rparr>))) = 413
   \<and> kb 100 < req_bytes (from_client ''203.0.113.7'' 0 jane \<lparr> req_bytes := 102401 \<rparr>)
   \<and> reply_status (out_reply (server_app configured accepting Map.empty
        (from_client ''203.0.113.7'' 0 jane \<lparr> req_bytes := 102401 \<rparr>))) = 413"
  using body_size_guard [of "from_client ''203.0.113.7'' 0 jane_form \<lparr> req_bytes := 10241 \<rparr>"
      has_at configured accepting Map.empty
      "from_client ''203.0.113.7'' 0 jane \<lparr> req_bytes := 102401 \<rparr>" configured accepting Map.empty]
  by (simp add: kb_def)

text \<open>
  C8 as stated fails in the Resend variant: a valid booking with a body of 20000 bytes is
  answered 200 and dispatched.
\<close>

theorem twenty_kilobytes_counterexample:
  "kb 10 < req_bytes (from_client ''203.0.113.7'' 0 jane \<lparr> req_bytes := 20000 \<rparr>)
   \<and> reply_status (out_reply (server_app configured accepting Map.empty
        (from_client ''203.0.113.7'' 0 jane \<lparr> req_bytes := 20000 \<rparr>))) = 200
   \<and> length (out_sent (server_app configured accepting Map.empty
        (from_client ''203.0.113.7'' 0 jane \<lparr> req_bytes := 20000 \<rparr>))) = 1"
proof -
  have f: "server_forwards Map.empty (from_client ''203.0.113.7'' 0 jane \<lparr> req_bytes := 20000 \<rparr>)"
    unfolding server_forwards_def limiter_def
    by (rule forwards_fresh) (simp_all add: default_json_limit_def kb_def)
  have b: "req_body (from_client ''203.0.113.7'' 0 jane \<lparr> req_bytes := 20000 \<rparr>) = jane"
    by (simp add: from_client_def)
  have k: "kb 10 < req_bytes (from_client ''203.0.113.7'' 0 jane \<lparr> req_bytes := 20000 \<rparr>)"
    by (simp add: kb_def)
  show ?thesis
    using k server_app_jane [OF f, where e = configured]
    by (simp add: b jane_valid jane_built)
qed

subsection \<open>C9\<close>

text \<open>
  C9 (amended). The declared origin decides only the \<open>Access-Control-Allow-Origin\<close> header,
  never the reply or the dispatch. In the nodemailer variant the header is the request's
  origin when that is one of the two configured origins and is left out otherwise, and the
  preflight answer allows the method \<open>POST\<close> only; in the Resend variant the header is
  \<open>*\<close> for every request.
\<close>

theorem origin_sets_header_only:
  "out_allow_origin (secure_app lib e sendMail st r)
     = (case req_origin r of
          None \<Rightarrow> None
        | Some x \<Rightarrow> if x \<in> {''http://localhost:5178'', ''http://192.168.100.12:5178''}
                    then Some x else None)
   \<and> out_reply (secure_app lib e sendMail st (r \<lparr> req_origin := x' \<rparr>))
       = out_reply (secure_app lib e sendMail st r)
   \<and> out_sent (secure_app lib e sendMail st (r \<lparr> req_origin := x' \<rparr>))
       = out_sent (secure_app lib e sendMail st r)
   \<and> pf_allow_methods (preflight secure_cors (req_origin r)) = ''POST''
   \<and> out_allow_origin (server_app e' send st' r') = Some ''*''
   \<and> out_reply (server_app e' send st' (r' \<lparr> req_origin := x' \<rparr>))
       = out_reply (server_app e' send st' r')
   \<and> out_sent (server_app e' send st' (r' \<lparr> req_origin := x' \<rparr>))
       = out_sent (server_app e' send st' r')"
  by (simp add: secure_app_def server_app_def express_app_origin express_app_allow_origin
        allow_origin_def secure_cors_def cors_defaults_def preflight_def split: option.splits)

theorem origin_sets_header_only_witness:
  "out_allow_origin (secure_app has_at configured accepting Map.empty
      (from_client ''203.0.113.7'' 0 jane_form \<lparr> req_origin := Some ''http://localhost:5178'' \<rparr>))
     = Some ''http://localhost:5178''
   \<and> out_allow_origin (server_app configured accepting Map.empty
      (from_client ''203.0.113.7'' 0 jane)) = Some ''*''"
  using origin_sets_header_only [of has_at configured accepting Map.empty
      "from_client ''203.0.113.7'' 0 jane_form \<lparr> req_origin := Some ''http://localhost:5178'' \<rparr>"
      None configured accepting Map.empty "from_client ''203.0.113.7'' 0 jane"]
  by simp

text \<open>
  C9 as stated fails in both variants: a valid booking whose origin is not in the list
  configured in the nodemailer variant is answered 200 and both messages are dispatched;
  the Resend variant configures no list, answers 200 and dispatches its message.
\<close>

theorem foreign_origin_counterexample:
  "''http://evil.example'' \<notin> set [''http://localhost:5178'', ''http://192.168.100.12:5178'']
   \<and> cors_origin secure_cors = OriginList [''http://localhost:5178'', ''http://192.168.100.12:5178'']
   \<and> reply_status (out_reply (secure_app has_at configured accepting Map.empty
        (from_client ''203.0.113.7'' 0 jane_form \<lparr> req_origin := Some ''http://evil.example'' \<rparr>))) = 200
   \<and> length (out_sent (secure_app has_at configured accepting Map.empty
        (from_client ''203.0.113.7'' 0 jane_form \<lparr> req_origin := Some ''http://evil.example'' \<rparr>))) = 2
   \<and> reply_status (out_reply (server_app configured accepting Map.empty
        (from_client ''203.0.113.7'' 0 jane \<lparr> req_origin := Some ''http://evil.example'' \<rparr>))) = 200
   \<and> length (out_sent (server_app configured accepting Map.empty
        (from_client ''203.0.113.7'' 0 jane \<lparr> req_origin := Some ''http://evil.example'' \<rparr>))) = 1"
proof -
  have f: "secure_forwards Map.empty
      (from_client ''203.0.113.7'' 0 jane_form \<lparr> req_origin := Some ''http://evil.example'' \<rparr>)"
    unfolding secure_forwards_def bookingLimiter_def
    by (rule forwards_fresh) (simp_all add: from_client_def kb_def)
  have g: "server_forwards Map.empty
      (from_client ''203.0.113.7'' 0 jane \<lparr> req_origin := Some ''http://evil.example'' \<rparr>)"
    unfolding server_forwards_def limiter_def
    by (rule forwards_fresh) (simp_all add: from_client_def default_json_limit_def kb_def)
  have b: "req_body (from_client ''203.0.113.7'' 0 jane_form
      \<lparr> req_origin := Some ''http://evil.example'' \<rparr>) = jane_form"
    "req_body (from_client ''203.0.113.7'' 0 jane
      \<lparr> req_origin := Some ''http://evil.example'' \<rparr>) = jane"
    by (simp_all add: from_client_def)
  show ?thesis
    using server_app_jane [OF g, where e = configured]
    by (simp add: secure_app_forwards [OF f] b jane_form_valid jane_valid jane_built
          secure_handler_sent secure_handler_accepted accepting_def secure_cors_def)
qed

subsection \<open>C10\<close>

text \<open>
  C10 (amended). In the Resend variant, of a request that the gatekeeper forwards, whose five
  required fields are truthy and whose email is neither a string nor an array (a number
  other than 0, \<open>true\<close>, an object): \<open>validateBooking\<close> throws a TypeError instead of
  answering 400; Express's default error handler answers with status 500 and nothing is
  dispatched.
\<close>

theorem validateBooking_throws:
  assumes "server_forwards st r"
    and "truthy (fullName (req_body r))" and "truthy (email (req_body r))"
    and "truthy (serviceType (req_body r))" and "truthy (preferredDate (req_body r))"
    and "truthy (preferredTime (req_body r))"
    and "\<And>s. email (req_body r) \<noteq> JStr s" and "\<And>xs. email (req_body r) \<noteq> JArr xs"
  shows "validateBooking (req_body r) = Throw TypeError
    \<and> out_reply (server_app e send st r) = ExpressError TypeError
    \<and> reply_status (out_reply (server_app e send st r)) = 500
    \<and> out_sent (server_app e send st r) = []"
proof -
  have "validateBooking (req_body r) = Throw TypeError"
    using assms(2-8) by (cases "email (req_body r)") (auto simp: validateBooking_def)
  then show ?thesis
    using assms(1) by (simp add: server_app_forwards booking_route_def)
qed

theorem validateBooking_throws_witness:
  "truthy (JNum 42)
   \<and> validateBooking (jane \<lparr> email := JNum 42 \<rparr>) = Throw TypeError
   \<and> reply_status (out_reply (server_app configured accepting Map.empty
        (from_client ''203.0.113.7'' 0 (jane \<lparr> email := JNum 42 \<rparr>)))) = 500"
  using validateBooking_throws [of Map.empty
      "from_client ''203.0.113.7'' 0 (jane \<lparr> email := JNum 42 \<rparr>)" configured accepting]
  by (simp add: server_forwards_fresh jane_def)

text \<open>
  C10 as stated fails for an array, which is truthy, not a string, and has an \<open>includes\<close>
  of its own: the empty array is answered 400, nothing is thrown.
\<close>

theorem array_email_counterexample:
  "truthy (JArr []) \<and> JArr [] \<noteq> JStr []
   \<and> validateBooking (jane \<lparr> email := JArr [] \<rparr>)
       = Respond (Json 400 (JObj [(''error'', JStr ''Invalid email format'')]))"
  by (simp add: validateBooking_def jane_def res_json_def)

end
